theory Spec2Isabelle
  imports Complex_Main
begin

section \<open>Random number service\<close>

text \<open>
  Modelled from the spec: the class \<^verbatim>\<open>RandomTwister\<close> is not part of the sources, only its
  callers are. A generator is an infinite sequence of uniform variates together with the
  number of variates already handed out; every primitive (\<^verbatim>\<open>operator()\<close>, \<^verbatim>\<open>half()\<close>,
  \<^verbatim>\<open>range(a,b)\<close>, \<^verbatim>\<open>element(begin,end)\<close>) hands out the next variate. Two generators
  exist: the global \<^verbatim>\<open>slump\<close> and the static \<^verbatim>\<open>Movebase::_slump()\<close>.
\<close>

record rng =
  draws :: "nat \<Rightarrow> real"
  used :: nat

definition rng_uniform :: "rng \<Rightarrow> real \<times> rng" where
  "rng_uniform r = (draws r (used r), r\<lparr>used := Suc (used r)\<rparr>)"

definition rng_half :: "rng \<Rightarrow> real \<times> rng" where
  "rng_half r = (case rng_uniform r of (u, r') \<Rightarrow> (u - 1 / 2, r'))"

definition rng_index :: "nat \<Rightarrow> real \<Rightarrow> nat" where
  "rng_index n u = min (n - 1) (nat \<lfloor>u * real n\<rfloor>)"

definition rng_range :: "int \<Rightarrow> int \<Rightarrow> rng \<Rightarrow> int \<times> rng" where
  "rng_range a b r =
     (case rng_uniform r of (u, r') \<Rightarrow> (a + int (rng_index (nat (b - a + 1)) u), r'))"

text \<open>\<^verbatim>\<open>element(begin,end)\<close>: the position of a random element, or the end iterator
  (\<open>None\<close>) for an empty range.\<close>

definition rng_element :: "nat \<Rightarrow> rng \<Rightarrow> nat option \<times> rng" where
  "rng_element n r =
     (if n = 0 then (None, r)
      else case rng_uniform r of (u, r') \<Rightarrow> (Some (rng_index n u), r'))"

section \<open>Energies\<close>

text \<open>
  Energies are doubles in units of kT. The model takes the reals, the two infinities
  (\<^verbatim>\<open>pc::infty\<close> is \<open>PInf\<close>) and NaN, with the sums, differences and comparisons of
  IEEE 754 on the special values; rounding is outside the model. \<open>exp_neg du\<close> is
  \<^verbatim>\<open>std::exp(-du)\<close>, \<open>elog x\<close> is \<^verbatim>\<open>std::log(x)\<close>, and \<open>real_gt u e\<close> and \<open>real_lt u e\<close> are the
  comparisons \<^verbatim>\<open>u > e\<close> and \<^verbatim>\<open>u < e\<close> of a finite \<open>u\<close>.
\<close>

datatype energy = Fin real | PInf | MInf | NaN

fun eneg :: "energy \<Rightarrow> energy" where
  "eneg (Fin x) = Fin (- x)"
| "eneg PInf = MInf"
| "eneg MInf = PInf"
| "eneg NaN = NaN"

fun eplus :: "energy \<Rightarrow> energy \<Rightarrow> energy" where
  "eplus (Fin a) (Fin b) = Fin (a + b)"
| "eplus NaN _ = NaN"
| "eplus _ NaN = NaN"
| "eplus PInf MInf = NaN"
| "eplus MInf PInf = NaN"
| "eplus PInf _ = PInf"
| "eplus _ PInf = PInf"
| "eplus MInf _ = MInf"
| "eplus _ MInf = MInf"

definition eminus :: "energy \<Rightarrow> energy \<Rightarrow> energy" where
  "eminus a b = eplus a (eneg b)"

fun exp_neg :: "energy \<Rightarrow> energy" where
  "exp_neg (Fin x) = Fin (exp (- x))"
| "exp_neg PInf = Fin 0"
| "exp_neg MInf = PInf"
| "exp_neg NaN = NaN"

definition elog :: "real \<Rightarrow> energy" where
  "elog x = (if 0 < x then Fin (ln x) else if x = 0 then MInf else NaN)"


fun real_gt :: "real \<Rightarrow> energy \<Rightarrow> bool" where
  "real_gt u (Fin y) = (u > y)"
| "real_gt u PInf = False"
| "real_gt u MInf = True"
| "real_gt u NaN = False"

section \<open>Data model\<close>

type_synonym point = "real \<times> real \<times> real"

text \<open>
  A particle: position, charge, atom-type id, radius, and the dipole attributes that the
  polarisation step uses: the unit vector \<^verbatim>\<open>mu\<close>, the dipole scalar \<^verbatim>\<open>muscalar\<close>, the
  polarisability tensor \<^verbatim>\<open>alpha\<close> as the linear map it applies to a field, and the
  permanent dipole \<^verbatim>\<open>mup\<close>.
\<close>

record particle =
  ppos :: point
  charge :: real
  pid :: int
  radius :: real
  mu :: point
  muscalar :: real
  alpha :: "point \<Rightarrow> point"
  mup :: point

text \<open>
  Modelled from the spec: the classes \<^verbatim>\<open>Group\<close> and \<^verbatim>\<open>Space\<close> are not part of the sources.
  A group is a contiguous range of \<open>gsize\<close> particle indices starting at \<open>front\<close>, with a
  molecule-type id, the molecular/atomic flag and the committed and trial mass centres.
  The space owns the two particle vectors \<^verbatim>\<open>p\<close> (committed) and \<^verbatim>\<open>trial\<close>, the group
  list, the particle tracker and the side lengths \<^verbatim>\<open>geo.len\<close> and \<^verbatim>\<open>geo_trial.len\<close> of the
  committed and of the trial geometry.
\<close>

record group =
  front :: nat
  gsize :: nat
  molId :: int
  isMolecular :: bool
  cm :: point
  cm_trial :: point

record space =
  p :: "particle list"
  trial :: "particle list"
  groupList :: "group list"
  atomTrack :: "int \<Rightarrow> nat list"
  geo_len :: point
  geo_trial_len :: point

definition isAtomic :: "group \<Rightarrow> bool" where
  "isAtomic g = (\<not> isMolecular g)"

definition group_indices :: "group \<Rightarrow> nat list" where
  "group_indices g = [front g ..< front g + gsize g]"

text \<open>\<^verbatim>\<open>findMolecules(id)\<close>: the positions in the group list of the groups of a molecule
  type.\<close>

definition findMolecules :: "space \<Rightarrow> int \<Rightarrow> nat list" where
  "findMolecules s k = filter (\<lambda>i. molId (groupList s ! i) = k) [0 ..< length (groupList s)]"

record MolListData =
  prob :: real
  perAtom :: bool
  perMol :: bool
  repeat :: int
  Nattempts :: nat
  Naccepted :: nat
  dir :: point
  dp1 :: real
  dp2 :: real

definition MolListData_default :: MolListData where
  "MolListData_default =
     \<lparr>prob = 1, perAtom = False, perMol = False, repeat = 1, Nattempts = 0, Naccepted = 0,
      dir = (1, 1, 1), dp1 = 0, dp2 = 0\<rparr>"

text \<open>
  Modelled from the spec: the class \<^verbatim>\<open>Space::Change\<close> is not part of the sources. It maps a
  group index to the particle indices altered in that group (\<^verbatim>\<open>mvGroup\<close>, a
  \<^verbatim>\<open>std::map\<close>, here an association list), and holds the flag \<^verbatim>\<open>geometryChange\<close> and the
  volume difference \<^verbatim>\<open>dV\<close>.
\<close>

record Change =
  mvGroup :: "(int \<times> int list) list"
  geometryChange :: bool
  dV :: real

definition Change_clear :: "Change \<Rightarrow> Change" where
  "Change_clear c = c\<lparr>mvGroup := [], geometryChange := False, dV := 0\<rparr>"


text \<open>
  A \<^verbatim>\<open>std::map\<close> is an association list with distinct keys in increasing order.
  \<open>map_at\<close> is the value \<^verbatim>\<open>operator[]\<close> gives (the default-constructed one for a new
  key), \<open>map_touch\<close> the insertion \<^verbatim>\<open>operator[]\<close> makes for a new key, and
  \<open>map_assign\<close> the assignment \<^verbatim>\<open>m[k] = v\<close>.
\<close>

definition map_at :: "'v \<Rightarrow> ('k \<times> 'v) list \<Rightarrow> 'k \<Rightarrow> 'v" where
  "map_at d m k = (case map_of m k of Some v \<Rightarrow> v | None \<Rightarrow> d)"

definition map_touch :: "'v \<Rightarrow> 'k::linorder \<Rightarrow> ('k \<times> 'v) list \<Rightarrow> ('k \<times> 'v) list" where
  "map_touch d k m = (if k \<in> fst ` set m then m else insort_key fst (k, d) m)"

definition map_assign :: "'k::linorder \<Rightarrow> 'v \<Rightarrow> ('k \<times> 'v) list \<Rightarrow> ('k \<times> 'v) list" where
  "map_assign k v m =
     (if k \<in> fst ` set m then map (\<lambda>(k', v'). if k' = k then (k', v) else (k', v')) m
      else insort_key fst (k, v) m)"

text \<open>\<^verbatim>\<open>Average<T>\<close>: the sum and the number of the samples added with \<^verbatim>\<open>+=\<close>.\<close>

type_synonym average = "real \<times> nat"

definition avg_add :: "real \<Rightarrow> average \<Rightarrow> average" where
  "avg_add x a = (fst a + x, Suc (snd a))"


text \<open>The exceptions the moves throw; \<open>diverges\<close> stands for a trial move that does not return.\<close>

datatype error = runtime_error string | out_of_range | diverges

section \<open>The base class of all moves\<close>

text \<open>
  The fields of \<^verbatim>\<open>Movebase\<close>. The pointer \<^verbatim>\<open>spc\<close> and the two generators are shared with
  the rest of the program; the record holds their current value, and a caller that runs
  several moves hands the values on from one move to the next.
\<close>

record movebase =
  cnt :: nat
  cnt_accepted :: nat
  dusum :: energy
  runfraction :: real
  change :: Change
  useAlternativeReturnEnergy :: bool
  alternateReturnEnergy :: energy
  mollist :: "(int \<times> MolListData) list"
  currentMolId :: int
  spc :: space
  slump :: rng
  Movebase_slump :: rng

text \<open>
  Collaborators that are not part of the sources and whose results the moves only pass
  on: the Hamiltonian (\<^verbatim>\<open>pot\<close>, \<^verbatim>\<open>Energy::energyChange\<close>), the geometry, the atom table
  and the queries of the space that the spec does not define.
\<close>

record collaborators =
  numMolecules :: "space \<Rightarrow> int \<Rightarrow> int"
  massCenter :: "particle list \<Rightarrow> group \<Rightarrow> point"
  pot_update :: "space \<Rightarrow> bool \<Rightarrow> energy"
  pot_energyChange :: "space \<Rightarrow> Change \<Rightarrow> energy"
  pot_g_external :: "particle list \<Rightarrow> group \<Rightarrow> energy"
  pot_i_external :: "particle list \<Rightarrow> nat \<Rightarrow> energy"
  pot_g2g :: "particle list \<Rightarrow> group \<Rightarrow> group \<Rightarrow> energy"
  pot_field :: "particle list \<Rightarrow> point list"
  systemEnergy :: "space \<Rightarrow> particle list \<Rightarrow> energy"
  pot_i2i :: "particle list \<Rightarrow> nat \<Rightarrow> nat \<Rightarrow> energy"
  pot_i_total :: "particle list \<Rightarrow> nat \<Rightarrow> energy"
  pot_v2v :: "particle list \<Rightarrow> particle list \<Rightarrow> energy"
  pot_p2p :: "particle \<Rightarrow> particle \<Rightarrow> energy"
  pot_p_external :: "particle \<Rightarrow> energy"
  atom_dp :: "int \<Rightarrow> real"
  geo_translate :: "point \<Rightarrow> particle \<Rightarrow> particle"
  geo_sqdist :: "particle \<Rightarrow> particle \<Rightarrow> real"
  geo_collision :: "particle \<Rightarrow> bool"
  geo_randompos :: "particle \<Rightarrow> rng \<Rightarrow> particle \<times> rng"
  spc_insert :: "space \<Rightarrow> int \<Rightarrow> particle list \<Rightarrow> space \<times> nat option"
  spc_erase :: "space \<Rightarrow> nat \<Rightarrow> space"
  geo_getVolume :: "point \<Rightarrow> real"
  len_scale :: "point \<Rightarrow> point \<Rightarrow> real \<Rightarrow> real \<Rightarrow> point"
  group_scale :: "space \<Rightarrow> nat \<Rightarrow> point \<Rightarrow> real \<Rightarrow> real \<Rightarrow> space"
  ranunit :: "rng \<Rightarrow> point \<times> rng"
  group_rotate :: "space \<Rightarrow> nat \<Rightarrow> point \<Rightarrow> real \<Rightarrow> space"
  group_translate :: "space \<Rightarrow> nat \<Rightarrow> point \<Rightarrow> space"
  vrot :: "point \<Rightarrow> point \<Rightarrow> real \<Rightarrow> particle \<Rightarrow> particle"

text \<open>The virtual functions a derived move implements; a trial move may throw.\<close>

record 'a vtable =
  vrun :: "'a \<Rightarrow> bool \<times> 'a"
  vtrialMove :: "'a \<Rightarrow> error + 'a"
  venergyChange :: "'a \<Rightarrow> energy \<times> 'a"
  vacceptMove :: "'a \<Rightarrow> 'a"
  vrejectMove :: "'a \<Rightarrow> 'a"

text \<open>
  \<^verbatim>\<open>Movebase::randomMolId\<close>. \<^verbatim>\<open>front()\<close> of an empty vector is undefined in the source;
  \<open>hd []\<close> is unspecified here. The product is computed in \<open>int\<close>; signed overflow is
  undefined in the source.
\<close>

definition set_repeat :: "collaborators \<Rightarrow> space \<Rightarrow> int \<Rightarrow> MolListData \<Rightarrow> MolListData" where
  "set_repeat E s k d =
     (let d1 = d\<lparr>repeat := 1\<rparr>;
          d2 = (if perMol d1 then d1\<lparr>repeat := repeat d1 * numMolecules E s k\<rparr> else d1);
          d3 = (if perAtom d2
                then d2\<lparr>repeat := repeat d2 * int (gsize (groupList s ! hd (findMolecules s k)))\<rparr>
                else d2)
      in d3)"

definition randomMolId ::
  "collaborators \<Rightarrow> 'a movebase_scheme \<Rightarrow> int \<times> 'a movebase_scheme" where
  "randomMolId E m =
     (if mollist m \<noteq> [] then
        (case rng_element (length (mollist m)) (Movebase_slump m) of
           (Some i, r) \<Rightarrow>
             (case mollist m ! i of (k, d) \<Rightarrow>
                (k, m\<lparr>Movebase_slump := r,
                      mollist := (mollist m)[i := (k, set_repeat E (spc m) k d)]\<rparr>))
         | (None, r) \<Rightarrow> (- 1, m\<lparr>Movebase_slump := r\<rparr>))
      else (- 1, m))"

text \<open>\<^verbatim>\<open>Movebase::run\<close>, the runfraction test.\<close>

definition run :: "'a movebase_scheme \<Rightarrow> bool \<times> 'a movebase_scheme" where
  "run m = (case rng_uniform (Movebase_slump m) of
              (u, r) \<Rightarrow> (if u < runfraction m then True else False, m\<lparr>Movebase_slump := r\<rparr>))"

text \<open>\<^verbatim>\<open>Movebase::metropolis\<close>.\<close>

definition metropolis :: "energy \<Rightarrow> 'a movebase_scheme \<Rightarrow> bool \<times> 'a movebase_scheme" where
  "metropolis du m = (case rng_uniform (slump m) of
                        (u, r) \<Rightarrow> (if real_gt u (exp_neg du) then False else True, m\<lparr>slump := r\<rparr>))"

text \<open>\<^verbatim>\<open>Group::setMassCenter\<close> for every group, as the first trial of a move does.\<close>

definition setMassCenter :: "collaborators \<Rightarrow> space \<Rightarrow> group \<Rightarrow> group" where
  "setMassCenter E s g = g\<lparr>cm := massCenter E (p s) g, cm_trial := massCenter E (p s) g\<rparr>"

definition setMassCenters :: "collaborators \<Rightarrow> space \<Rightarrow> space" where
  "setMassCenters E s = s\<lparr>groupList := map (setMassCenter E s) (groupList s)\<rparr>"

text \<open>The wrappers \<^verbatim>\<open>trialMove\<close>, \<^verbatim>\<open>acceptMove\<close>, \<^verbatim>\<open>rejectMove\<close>.\<close>

definition trialMove ::
  "collaborators \<Rightarrow> ('a movebase_scheme) vtable \<Rightarrow> 'a movebase_scheme \<Rightarrow> error + 'a movebase_scheme" where
  "trialMove E V m =
     (let m1 = (if cnt m = 0 then m\<lparr>spc := setMassCenters E (spc m)\<rparr> else m)
      in vtrialMove V (m1\<lparr>cnt := Suc (cnt m1)\<rparr>))"

definition acceptMove :: "('a movebase_scheme) vtable \<Rightarrow> 'a movebase_scheme \<Rightarrow> 'a movebase_scheme" where
  "acceptMove V m = vacceptMove V (m\<lparr>cnt_accepted := Suc (cnt_accepted m)\<rparr>)"

definition rejectMove :: "('a movebase_scheme) vtable \<Rightarrow> 'a movebase_scheme \<Rightarrow> 'a movebase_scheme" where
  "rejectMove V m = vrejectMove V m"

text \<open>
  One pass of the loop body of \<^verbatim>\<open>Movebase::move\<close>. \<open>move_decide\<close> is the part after the
  trial move: energy change, Metropolis test, accept or reject, \<^verbatim>\<open>pot->update\<close>,
  \<^verbatim>\<open>change.clear()\<close>. The result carries the outcome of the Metropolis test of the pass.
\<close>

definition move_decide ::
  "collaborators \<Rightarrow> ('a movebase_scheme) vtable \<Rightarrow> energy \<Rightarrow> 'a movebase_scheme \<Rightarrow>
   bool \<times> energy \<times> 'a movebase_scheme" where
  "move_decide E V utot m1 =
     (case venergyChange V m1 of (du, m2) \<Rightarrow>
        (case metropolis du m2 of (acceptance, m3) \<Rightarrow>
           (if \<not> acceptance then
              (let m4 = rejectMove V m3;
                   utot1 = eplus utot (pot_update E (spc m4) acceptance)
               in (acceptance, utot1, m4\<lparr>change := Change_clear (change m4)\<rparr>))
            else
              (let m4 = acceptMove V m3;
                   du1 = (if useAlternativeReturnEnergy m4 then alternateReturnEnergy m4 else du);
                   m5 = m4\<lparr>dusum := eplus (dusum m4) du1\<rparr>;
                   utot1 = eplus (eplus utot du1) (pot_update E (spc m5) acceptance)
               in (acceptance, utot1, m5\<lparr>change := Change_clear (change m5)\<rparr>)))))"

definition move_trial ::
  "collaborators \<Rightarrow> ('a movebase_scheme) vtable \<Rightarrow> energy \<times> 'a movebase_scheme \<Rightarrow>
   error + bool \<times> energy \<times> 'a movebase_scheme" where
  "move_trial E V um =
     (case trialMove E V (snd um) of
        Inl e \<Rightarrow> Inl e
      | Inr m1 \<Rightarrow> Inr (move_decide E V (fst um) m1))"

fun move_loop ::
  "collaborators \<Rightarrow> ('a movebase_scheme) vtable \<Rightarrow> nat \<Rightarrow>
   energy \<times> 'a movebase_scheme \<Rightarrow> error + energy \<times> 'a movebase_scheme" where
  "move_loop E V 0 um = Inr um"
| "move_loop E V (Suc n) um =
     (case move_trial E V um of Inl e \<Rightarrow> Inl e | Inr r \<Rightarrow> move_loop E V n (snd r))"

text \<open>
  The first statements of \<^verbatim>\<open>Movebase::move(n)\<close>: with a non-empty move-list the molecule
  id is sampled and \<^verbatim>\<open>n\<close> and \<^verbatim>\<open>runfraction\<close> are overwritten from its entry.
\<close>

definition move_select ::
  "collaborators \<Rightarrow> int \<Rightarrow> 'a movebase_scheme \<Rightarrow> int \<times> 'a movebase_scheme" where
  "move_select E n m =
     (if mollist m \<noteq> [] then
        (case randomMolId E m of (k, m1) \<Rightarrow>
           (let m2 = m1\<lparr>currentMolId := k\<rparr>;
                m3 = m2\<lparr>mollist := map_touch MolListData_default (currentMolId m2) (mollist m2)\<rparr>;
                d = map_at MolListData_default (mollist m3) (currentMolId m3)
            in (repeat d, m3\<lparr>runfraction := prob d\<rparr>)))
      else (n, m))"

text \<open>\<^verbatim>\<open>Movebase::move(n)\<close>; the loop \<^verbatim>\<open>while (n-- > 0)\<close> runs \<open>nat n\<close> times.\<close>

definition move ::
  "collaborators \<Rightarrow> ('a movebase_scheme) vtable \<Rightarrow> int \<Rightarrow>
   'a movebase_scheme \<Rightarrow> error + energy \<times> 'a movebase_scheme" where
  "move E V n m =
     (case move_select E n m of (n1, m1) \<Rightarrow>
        (case vrun V m1 of (go, m2) \<Rightarrow>
           (if go then move_loop E V (nat n1) (Fin 0, m2) else Inr (Fin 0, m2))))"

section \<open>Translation of single particles\<close>



definition findGroup :: "space \<Rightarrow> nat \<Rightarrow> nat option" where
  "findGroup s i =
     (case filter (\<lambda>j. front (groupList s ! j) \<le> i \<and> i < front (groupList s ! j) + gsize (groupList s ! j))
             [0 ..< length (groupList s)] of
        [] \<Rightarrow> None
      | j # _ \<Rightarrow> Some j)"






definition update_cm_trial :: "collaborators \<Rightarrow> space \<Rightarrow> nat \<Rightarrow> space" where
  "update_cm_trial E s i =
     (case findGroup s i of
        None \<Rightarrow> s
      | Some j \<Rightarrow>
          (let g = groupList s ! j
           in if isMolecular g
              then s\<lparr>groupList := (groupList s)[j := g\<lparr>cm_trial := massCenter E (trial s) g\<rparr>]\<rparr>
              else s))"




text \<open>
  \<^verbatim>\<open>AtomicTranslation::_acceptMove\<close> and \<^verbatim>\<open>_rejectMove\<close>. Both index the particle vectors
  with \<^verbatim>\<open>iparticle\<close> unchecked; for \<open>iparticle = - 1\<close> or beyond the end the source is
  undefined.
\<close>

definition sync_cm :: "bool \<Rightarrow> space \<Rightarrow> nat \<Rightarrow> space" where
  "sync_cm accepted s i =
     (case findGroup s i of
        None \<Rightarrow> s
      | Some j \<Rightarrow>
          (let g = groupList s ! j
           in if isMolecular g
              then s\<lparr>groupList := (groupList s)[j := (if accepted then g\<lparr>cm := cm_trial g\<rparr>
                                                         else g\<lparr>cm_trial := cm g\<rparr>)]\<rparr>
              else s))"










section \<open>Translation and rotation of a group with the mobile particles around it\<close>

text \<open>
  The fields of \<^verbatim>\<open>TranslateRotate\<close> and \<^verbatim>\<open>TranslateRotateCluster\<close> that the trial move and
  the energy change of the cluster move use; \<open>tr_igroup\<close> is the pointer \<^verbatim>\<open>igroup\<close> and
  \<open>tr_dir\<close> the field \<^verbatim>\<open>dir\<close>. The vector \<^verbatim>\<open>cindex\<close> holds the mobile particles of the
  cluster, \<^verbatim>\<open>gmobile\<close> points to the group of the mobile particles.
\<close>

record TranslateRotate = movebase +
  tr_igroup :: "nat option"
  dp_rot :: real
  dp_trans :: real
  angle :: real
  tr_dir :: point

record TranslateRotateCluster = TranslateRotate +
  cindex :: "nat list"
  gmobile :: "nat option"
  threshold :: real
  avgsize :: average
  avgbias :: average

definition igroup_indices :: "'a TranslateRotate_scheme \<Rightarrow> nat list" where
  "igroup_indices m = (case tr_igroup m of None \<Rightarrow> [] | Some j \<Rightarrow> group_indices (groupList (spc m) ! j))"

definition gmobile_indices :: "'a TranslateRotateCluster_scheme \<Rightarrow> nat list" where
  "gmobile_indices m = (case gmobile m of None \<Rightarrow> [] | Some j \<Rightarrow> group_indices (groupList (spc m) ! j))"

text \<open>
  \<^verbatim>\<open>TranslateRotateCluster::ClusterProbability\<close>, the default of the virtual function: the
  loop over the main group returns 1 at the first particle closer than the threshold plus
  the two radii.
\<close>

fun ClusterProbability_scan ::
  "collaborators \<Rightarrow> real \<Rightarrow> particle list \<Rightarrow> nat \<Rightarrow> nat list \<Rightarrow> real" where
  "ClusterProbability_scan E thr ps i [] = 0"
| "ClusterProbability_scan E thr ps i (j # js) =
     (if i \<noteq> j then
        (let r = thr + radius (ps ! i) + radius (ps ! j)
         in if geo_sqdist E (ps ! i) (ps ! j) < r * r then 1
            else ClusterProbability_scan E thr ps i js)
      else ClusterProbability_scan E thr ps i js)"

definition ClusterProbability ::
  "collaborators \<Rightarrow> 'a TranslateRotateCluster_scheme \<Rightarrow> particle list \<Rightarrow> nat \<Rightarrow> real" where
  "ClusterProbability E m ps i = ClusterProbability_scan E (threshold m) ps i (igroup_indices m)"




definition point_add :: "point \<Rightarrow> point \<Rightarrow> point" where
  "point_add a b = (fst a + fst b, fst (snd a) + fst (snd b), snd (snd a) + snd (snd b))"




text \<open>
  \<^verbatim>\<open>TranslateRotateCluster::_energyChange\<close>. First the bias, a product over the mobile
  particles that are not in the cluster; then the three sums of the energy: the external
  energy of the trial and of the committed configuration, and the pair energy between
  the moved and the static particles.
\<close>

definition TRC_bias ::
  "('a TranslateRotateCluster_scheme \<Rightarrow> particle list \<Rightarrow> nat \<Rightarrow> real) \<Rightarrow>
   'a TranslateRotateCluster_scheme \<Rightarrow> real" where
  "TRC_bias cp m =
     fold (\<lambda>l bias. if l \<notin> set (cindex m)
                     then bias * ((1 - cp m (trial (spc m)) l) / (1 - cp m (p (spc m)) l))
                     else bias)
       (gmobile_indices m) 1"

definition TRC_imoved :: "'a TranslateRotateCluster_scheme \<Rightarrow> nat list" where
  "TRC_imoved m = cindex m @ igroup_indices m"

definition TRC_uext ::
  "collaborators \<Rightarrow> 'a TranslateRotateCluster_scheme \<Rightarrow> particle list \<Rightarrow> energy \<Rightarrow> energy" where
  "TRC_uext E m ps u0 = fold (\<lambda>i u. eplus u (pot_i_external E ps i)) (cindex m) u0"

definition TRC_du :: "collaborators \<Rightarrow> 'a TranslateRotateCluster_scheme \<Rightarrow> energy" where
  "TRC_du E m =
     fold (\<lambda>j du. if j \<notin> set (TRC_imoved m)
                   then fold (\<lambda>i d. eplus d (eminus (pot_i2i E (trial (spc m)) i j)
                                                   (pot_i2i E (p (spc m)) i j)))
                          (TRC_imoved m) du
                   else du)
       [0 ..< length (p (spc m))] (Fin 0)"

definition TranslateRotateCluster_energyChange ::
  "('a TranslateRotateCluster_scheme \<Rightarrow> particle list \<Rightarrow> nat \<Rightarrow> real) \<Rightarrow> collaborators \<Rightarrow>
   'a TranslateRotateCluster_scheme \<Rightarrow> energy \<times> 'a TranslateRotateCluster_scheme" where
  "TranslateRotateCluster_energyChange cp E m =
     (let bias = TRC_bias cp m;
          m1 = m\<lparr>avgbias := avg_add bias (avgbias m)\<rparr>
      in if bias < 1 / 10000000 then (PInf, m1)
         else if dp_rot m < 1 / 1000000 \<and> dp_trans m < 1 / 1000000 then (Fin 0, m1)
         else if list_ex (\<lambda>i. geo_collision E (trial (spc m) ! i)) (TRC_imoved m) then (PInf, m1)
         else
           (case tr_igroup m of
              None \<Rightarrow> (NaN, m1)
            | Some j \<Rightarrow>
                (let g = groupList (spc m) ! j;
                     unew0 = pot_g_external E (trial (spc m)) g
                 in if unew0 = PInf then (PInf, m1)
                    else
                      (let uold = TRC_uext E m (p (spc m)) (pot_g_external E (p (spc m)) g);
                           unew = TRC_uext E m (trial (spc m)) unew0;
                           du = TRC_du E m
                       in (eminus (eplus (eminus unew uold) du) (Fin (ln bias)), m1)))))"


section \<open>Isobaric volume move\<close>

text \<open>
  The fields of \<^verbatim>\<open>Isobaric\<close>; \<open>iso_P\<close> and \<open>iso_dp\<close> are the fields \<^verbatim>\<open>P\<close> and \<^verbatim>\<open>dp\<close>.
\<close>

record Isobaric = movebase +
  iso_P :: real
  iso_dp :: real
  oldval :: real
  newval :: real
  oldlen :: point
  newlen :: point
  msd :: average
  val :: average
  rval :: average

text \<open>The loop that sets the mass centre of each group and scales its trial coordinates.\<close>

definition scale_groups :: "collaborators \<Rightarrow> point \<Rightarrow> real \<Rightarrow> real \<Rightarrow> space \<Rightarrow> space" where
  "scale_groups E s xyz xy sp =
     fold (\<lambda>j sp1. group_scale E
                     (sp1\<lparr>groupList := (groupList sp1)[j := setMassCenter E sp1 (groupList sp1 ! j)]\<rparr>)
                     j s xyz xy)
       [0 ..< length (groupList sp)] sp"

text \<open>
  The loop that registers the groups in the Change object: all particle indices of an
  atomic group (\<^verbatim>\<open>resize\<close> and \<^verbatim>\<open>std::iota\<close> from \<^verbatim>\<open>front()\<close>), an empty list for a
  molecular group.
\<close>

definition register_group :: "group list \<Rightarrow> nat \<Rightarrow> (int \<times> int list) list \<Rightarrow> (int \<times> int list) list" where
  "register_group gl j mv =
     (if isAtomic (gl ! j) then map_assign (int j) (map int (group_indices (gl ! j))) mv
      else map_assign (int j) [] mv)"

definition register_groups :: "group list \<Rightarrow> (int \<times> int list) list \<Rightarrow> (int \<times> int list) list" where
  "register_groups gl mv = fold (register_group gl) [0 ..< length gl] mv"

text \<open>\<^verbatim>\<open>Isobaric::_trialMove\<close>.\<close>

definition Isobaric_trialMove :: "collaborators \<Rightarrow> 'a Isobaric_scheme \<Rightarrow> 'a Isobaric_scheme" where
  "Isobaric_trialMove E m =
     (let ov = geo_getVolume E (geo_len (spc m));
          ol = geo_len (spc m);
          (h, r) = rng_half (slump m);
          nv = exp (ln ov + h * iso_dp m);
          s = (1, 1, 1);
          xyz = root 3 (nv / ov);
          xy = sqrt (nv / ov);
          nl = len_scale E ol s xyz xy;
          sp1 = scale_groups E s xyz xy (spc m);
          sp2 = sp1\<lparr>geo_trial_len := nl\<rparr>;
          c = change m
      in m\<lparr>slump := r, oldval := ov, oldlen := ol, newval := nv, newlen := nl, spc := sp2,
           change := c\<lparr>mvGroup := register_groups (groupList sp2) (mvGroup c),
                       geometryChange := True, dV := nv - ov\<rparr>\<rparr>)"

section \<open>Grand canonical salt move\<close>

text \<open>
  The fields of \<^verbatim>\<open>GrandCanonicalSalt\<close>; \<open>gc_map\<close> is the field \<^verbatim>\<open>map\<close> of the ion
  properties by atom type, \<open>ion_p\<close> the field \<^verbatim>\<open>p\<close> of \<^verbatim>\<open>ionprop\<close>.
\<close>

record ionprop =
  ion_p :: particle
  chempot :: real
  rho :: average

record GrandCanonicalSalt = movebase +
  gc_map :: "(int \<times> ionprop) list"
  trial_insert :: "particle list"
  trial_delete :: "nat list"
  ida :: int
  idb :: int
  saltPtr :: "nat option"
  saltmolid :: int

definition ionprop_default :: ionprop where
  "ionprop_default = \<lparr>ion_p = \<lparr>ppos = (0, 0, 0), charge = 0, pid = 0, radius = 0, mu = (0, 0, 0),
                                muscalar = 0, alpha = (\<lambda>e. (0, 0, 0)), mup = (0, 0, 0)\<rparr>,
                       chempot = 0, rho = (0, 0)\<rparr>"

text \<open>\<^verbatim>\<open>randomAtomType\<close> throws when the map is empty.\<close>

definition randomAtomType :: "(int \<times> ionprop) list \<Rightarrow> rng \<Rightarrow> error + int \<times> rng" where
  "randomAtomType mp r =
     (case rng_element (length mp) r of
        (None, r') \<Rightarrow> Inl (runtime_error ''no ions could be found'')
      | (Some i, r') \<Rightarrow> Inr (fst (mp ! i), r'))"

text \<open>
  The two loops of \<^verbatim>\<open>randomIonPair\<close> draw an atom type again and again while its charge
  has the wrong sign; they do not end when the map has no type of the other sign.
\<close>

partial_function (option) random_type_while ::
  "(real \<Rightarrow> bool) \<Rightarrow> (int \<times> ionprop) list \<Rightarrow> rng \<Rightarrow> (error + int \<times> rng) option" where
  "random_type_while again mp r =
     (case randomAtomType mp r of
        Inl e \<Rightarrow> Some (Inl e)
      | Inr kr \<Rightarrow>
          (if again (charge (ion_p (map_at ionprop_default mp (fst kr))))
           then random_type_while again mp (snd kr)
           else Some (Inr kr)))"

definition randomIonPair ::
  "(int \<times> ionprop) list \<Rightarrow> rng \<Rightarrow> (error + int \<times> int \<times> rng) option" where
  "randomIonPair mp r =
     (case random_type_while (\<lambda>z. z \<ge> 0) mp r of
        None \<Rightarrow> None
      | Some (Inl e) \<Rightarrow> Some (Inl e)
      | Some (Inr (id_anion, r1)) \<Rightarrow>
          (case random_type_while (\<lambda>z. z \<le> 0) mp r1 of
             None \<Rightarrow> None
           | Some (Inl e) \<Rightarrow> Some (Inl e)
           | Some (Inr (id_cation, r2)) \<Rightarrow> Some (Inr (id_cation, id_anion, r2))))"

text \<open>
  The insertion branch. The loops \<^verbatim>\<open>do { push_back } while (--N > 0)\<close> count down a
  \<^verbatim>\<open>size_t\<close>: they run \<open>N\<close> times, and \<open>2\<^sup>6\<^sup>4\<close> times for \<open>N = 0\<close>.
\<close>

definition do_while_count :: "nat \<Rightarrow> nat" where
  "do_while_count n = (if n = 0 then 2 ^ 64 else n)"

fun randompos_all :: "collaborators \<Rightarrow> particle list \<Rightarrow> rng \<Rightarrow> particle list \<times> rng" where
  "randompos_all E [] r = ([], r)"
| "randompos_all E (a # as) r =
     (case geo_randompos E a r of
        (a', r1) \<Rightarrow> (case randompos_all E as r1 of (as', r2) \<Rightarrow> (a' # as', r2)))"

definition GCS_insert ::
  "collaborators \<Rightarrow> nat \<Rightarrow> nat \<Rightarrow> 'a GrandCanonicalSalt_scheme \<Rightarrow> 'a GrandCanonicalSalt_scheme" where
  "GCS_insert E Na Nb m =
     (let pa = ion_p (map_at ionprop_default (gc_map m) (ida m));
          pb = ion_p (map_at ionprop_default (gc_map m) (idb m));
          ti = replicate (do_while_count Na) pa @ replicate (do_while_count Nb) pb
      in case randompos_all E ti (slump m) of
           (ti', r) \<Rightarrow> m\<lparr>slump := r, trial_insert := ti'\<rparr>)"

text \<open>
  The deletion branch: with too few particles of one of the two types it returns with
  both trial lists empty; else it draws the particles to delete from the tracker.
\<close>

fun pick_random :: "nat \<Rightarrow> nat list \<Rightarrow> rng \<Rightarrow> nat list \<times> rng" where
  "pick_random 0 vec r = ([], r)"
| "pick_random (Suc k) vec r =
     (case rng_element (length vec) r of
        (None, r1) \<Rightarrow> ([], r1)
      | (Some i, r1) \<Rightarrow>
          (case pick_random k (take i vec @ drop (Suc i) vec) r1 of
             (xs, r2) \<Rightarrow> (vec ! i # xs, r2)))"

definition GCS_delete ::
  "nat \<Rightarrow> nat \<Rightarrow> 'a GrandCanonicalSalt_scheme \<Rightarrow> 'a GrandCanonicalSalt_scheme" where
  "GCS_delete Na Nb m =
     (let vecA = atomTrack (spc m) (ida m);
          vecB = atomTrack (spc m) (idb m)
      in if length vecA < Na \<or> length vecB < Nb then m
         else
           (case pick_random Na vecA (slump m) of
              (da, r1) \<Rightarrow>
                (case pick_random Nb vecB r1 of
                   (db, r2) \<Rightarrow> m\<lparr>slump := r2, trial_delete := da @ db\<rparr>)))"

text \<open>\<^verbatim>\<open>GrandCanonicalSalt::_trialMove\<close>; \<open>None\<close> when the choice of the ion pair does not
  return.\<close>

definition GCS_count :: "'a GrandCanonicalSalt_scheme \<Rightarrow> int \<Rightarrow> nat" where
  "GCS_count m k = nat \<lfloor>\<bar>charge (ion_p (map_at ionprop_default (gc_map m) k))\<bar>\<rfloor>"

definition GrandCanonicalSalt_trialMove ::
  "collaborators \<Rightarrow> 'a GrandCanonicalSalt_scheme \<Rightarrow> (error + 'a GrandCanonicalSalt_scheme) option" where
  "GrandCanonicalSalt_trialMove E m =
     (let m0 = m\<lparr>trial_insert := [], trial_delete := []\<rparr>
      in case randomIonPair (gc_map m0) (slump m0) of
           None \<Rightarrow> None
         | Some (Inl e) \<Rightarrow> Some (Inl e)
         | Some (Inr (a, b, r1)) \<Rightarrow>
             (let m1 = m0\<lparr>slump := r1, ida := a, idb := b\<rparr>;
                  Na = GCS_count m1 b;
                  Nb = GCS_count m1 a
              in case rng_range 0 1 (slump m1) of
                   (rn, r2) \<Rightarrow>
                     (if rn = 0 then Some (Inr (GCS_insert E Na Nb (m1\<lparr>slump := r2\<rparr>)))
                      else if rn = 1 then Some (Inr (GCS_delete Na Nb (m1\<lparr>slump := r2\<rparr>)))
                      else Some (Inr (m1\<lparr>slump := r2\<rparr>)))))"

text \<open>
  \<^verbatim>\<open>GrandCanonicalSalt::_energyChange\<close>. Each branch gives the four sums \<^verbatim>\<open>unew\<close>,
  \<^verbatim>\<open>uold\<close>, \<^verbatim>\<open>potnew\<close>, \<^verbatim>\<open>potold\<close>; without insertion and deletion all four keep their
  initial value zero. The counts of the ideal term are \<^verbatim>\<open>size_t\<close> values.
\<close>

fun pairs :: "'a list \<Rightarrow> ('a \<times> 'a) list" where
  "pairs [] = []"
| "pairs (x # xs) = map (Pair x) xs @ pairs xs"

definition esum :: "energy list \<Rightarrow> energy" where
  "esum es = fold (\<lambda>e s. eplus s e) es (Fin 0)"

definition idfactor_insert :: "space \<Rightarrow> real \<Rightarrow> int \<Rightarrow> int \<Rightarrow> real" where
  "idfactor_insert s V k N =
     fold (\<lambda>n f. f * (real (length (atomTrack s k) + 1 + n) / V)) [0 ..< nat N] 1"

definition idfactor_delete :: "space \<Rightarrow> real \<Rightarrow> int \<Rightarrow> int \<Rightarrow> real" where
  "idfactor_delete s V k N =
     fold (\<lambda>n f. f * (real_of_int ((int (length (atomTrack s k)) - N + 1 + int n) mod 2 ^ 64) / V))
       [0 ..< nat N] 1"

definition GCS_energies ::
  "collaborators \<Rightarrow> 'a GrandCanonicalSalt_scheme \<Rightarrow> energy \<times> energy \<times> energy \<times> energy" where
  "GCS_energies E m =
     (let s = spc m; V = geo_getVolume E (geo_len s);
          ma = map_at ionprop_default (gc_map m) (ida m);
          mb = map_at ionprop_default (gc_map m) (idb m)
      in if trial_insert m \<noteq> [] then
           (let ti = trial_insert m;
                Na = int (length (filter (\<lambda>t. pid t = pid (ion_p ma)) ti));
                Nb = int (length (filter (\<lambda>t. pid t \<noteq> pid (ion_p ma)) ti));
                idfactor = idfactor_insert s V (ida m) Na * idfactor_insert s V (idb m) Nb;
                unew0 = eminus (eminus (elog idfactor) (Fin (real_of_int Na * chempot ma)))
                          (Fin (real_of_int Nb * chempot mb));
                potnew = eplus (eplus (pot_v2v E (p s) ti)
                                  (esum (map (\<lambda>(a, b). pot_p2p E a b) (pairs ti))))
                           (esum (map (pot_p_external E) ti))
            in (eplus unew0 potnew, Fin 0, potnew, Fin 0))
         else if trial_delete m \<noteq> [] then
           (let td = trial_delete m;
                Na = int (length (filter (\<lambda>i. pid (p s ! i) = pid (ion_p ma)) td));
                Nb = int (length (filter (\<lambda>i. pid (p s ! i) \<noteq> pid (ion_p ma)
                                              \<and> pid (p s ! i) = pid (ion_p mb)) td));
                idfactor = idfactor_delete s V (ida m) Na * idfactor_delete s V (idb m) Nb;
                unew = eplus (eplus (eneg (elog idfactor)) (Fin (real_of_int Na * chempot ma)))
                         (Fin (real_of_int Nb * chempot mb));
                potold = eminus (esum (map (pot_i_total E (p s)) td))
                           (esum (map (\<lambda>(i, j). pot_i2i E (p s) i j) (pairs td)))
            in (unew, potold, Fin 0, potold))
         else (Fin 0, Fin 0, Fin 0, Fin 0))"

definition GrandCanonicalSalt_energyChange ::
  "collaborators \<Rightarrow> 'a GrandCanonicalSalt_scheme \<Rightarrow> energy \<times> 'a GrandCanonicalSalt_scheme" where
  "GrandCanonicalSalt_energyChange E m =
     (case GCS_energies E m of
        (unew, uold, potnew, potold) \<Rightarrow>
          (eminus unew uold, m\<lparr>alternateReturnEnergy := eminus potnew potold\<rparr>))"

text \<open>
  \<^verbatim>\<open>GrandCanonicalSalt::_acceptMove\<close> and \<^verbatim>\<open>_rejectMove\<close>; both sample the densities of
  the two ion types. \<^verbatim>\<open>Space::insert\<close> and \<^verbatim>\<open>Space::erase\<close> are collaborators.
\<close>

definition GCS_sample_rho ::
  "collaborators \<Rightarrow> 'a GrandCanonicalSalt_scheme \<Rightarrow> 'a GrandCanonicalSalt_scheme" where
  "GCS_sample_rho E m =
     (let V = geo_getVolume E (geo_len (spc m));
          da = map_at ionprop_default (gc_map m) (ida m);
          mp1 = map_assign (ida m)
                  (da\<lparr>rho := avg_add (real (length (atomTrack (spc m) (ida m))) / V) (rho da)\<rparr>)
                  (gc_map m);
          db = map_at ionprop_default mp1 (idb m);
          mp2 = map_assign (idb m)
                  (db\<lparr>rho := avg_add (real (length (atomTrack (spc m) (idb m))) / V) (rho db)\<rparr>)
                  mp1
      in m\<lparr>gc_map := mp2\<rparr>)"

definition GrandCanonicalSalt_acceptMove ::
  "collaborators \<Rightarrow> 'a GrandCanonicalSalt_scheme \<Rightarrow> 'a GrandCanonicalSalt_scheme" where
  "GrandCanonicalSalt_acceptMove E m =
     (let m1 = (if findMolecules (spc m) (saltmolid m) \<noteq> [] then m else m\<lparr>saltPtr := None\<rparr>);
          m2 = (if trial_insert m1 \<noteq> []
                then (case spc_insert E (spc m1) (saltmolid m1) (trial_insert m1) of
                        (s', g) \<Rightarrow> m1\<lparr>spc := s', saltPtr := g\<rparr>)
                else m1);
          m3 = (if trial_delete m2 \<noteq> []
                then (let td = rev (sort (trial_delete m2))
                      in m2\<lparr>trial_delete := td, spc := fold (\<lambda>i s. spc_erase E s i) td (spc m2)\<rparr>)
                else m2)
      in GCS_sample_rho E m3)"

definition GrandCanonicalSalt_rejectMove ::
  "collaborators \<Rightarrow> 'a GrandCanonicalSalt_scheme \<Rightarrow> 'a GrandCanonicalSalt_scheme" where
  "GrandCanonicalSalt_rejectMove E m = GCS_sample_rho E m"

definition GrandCanonicalSalt_vtable :: "collaborators \<Rightarrow> ('a GrandCanonicalSalt_scheme) vtable" where
  "GrandCanonicalSalt_vtable E =
     \<lparr>vrun = run,
      vtrialMove = (\<lambda>m. case GrandCanonicalSalt_trialMove E m of None \<Rightarrow> Inl diverges | Some r \<Rightarrow> r),
      venergyChange = GrandCanonicalSalt_energyChange E,
      vacceptMove = GrandCanonicalSalt_acceptMove E,
      vrejectMove = GrandCanonicalSalt_rejectMove E\<rparr>"

section \<open>Rejection-free cluster translation\<close>













section \<open>Polarisation step added to a move\<close>

text \<open>
  \<^verbatim>\<open>PolarizeMove<Tmove>\<close> derives from the move it wraps. Its own fields extend the base
  fields here, the fields of the wrapped move lie in the extension of the record, and the
  functions of the wrapped move are the table \<open>T\<close>; \<open>pol_threshold\<close> is the field
  \<^verbatim>\<open>threshold\<close>.
\<close>

record PolarizeMove = movebase +
  Ntrials :: int
  max_iter :: int
  pol_threshold :: real
  updateDip :: bool
  numIter :: average

definition point_sub :: "point \<Rightarrow> point \<Rightarrow> point" where
  "point_sub a b = (fst a - fst b, fst (snd a) - fst (snd b), snd (snd a) - snd (snd b))"

definition point_scale :: "real \<Rightarrow> point \<Rightarrow> point" where
  "point_scale c a = (c * fst a, c * fst (snd a), c * snd (snd a))"

definition point_norm :: "point \<Rightarrow> real" where
  "point_norm a = sqrt ((fst a)\<^sup>2 + (fst (snd a))\<^sup>2 + (snd (snd a))\<^sup>2)"

text \<open>
  One pass over the particles in \<^verbatim>\<open>induceDipoles\<close>: from the field on the particle the
  new total dipole, the norm of its change, and the particle with the new dipole.
\<close>

definition induce_particle :: "point \<Rightarrow> particle \<Rightarrow> real \<times> particle" where
  "induce_particle e a =
     (let mu_trial = point_add (alpha a e) (mup a);
          mu_err = point_sub mu_trial (point_scale (muscalar a) (mu a));
          a1 = a\<lparr>muscalar := point_norm mu_trial\<rparr>;
          a2 = (if muscalar a1 > 1 / 1000000
                then a1\<lparr>mu := point_scale (1 / muscalar a1) mu_trial\<rparr> else a1)
      in (point_norm mu_err, a2))"

text \<open>\<^verbatim>\<open>maxCoeff\<close> of a vector; of an empty vector it is undefined in the source.\<close>

definition maxCoeff :: "real list \<Rightarrow> real" where
  "maxCoeff xs = fold max (tl xs) (hd xs)"

text \<open>
  The loop of \<^verbatim>\<open>induceDipoles\<close>: it throws when the count of passes exceeds
  \<^verbatim>\<open>max_iter\<close>, and ends when no dipole changed by more than the threshold.
\<close>

function induceDipoles ::
  "collaborators \<Rightarrow> int \<Rightarrow> real \<Rightarrow> int \<Rightarrow> particle list \<Rightarrow> error + int \<times> particle list" where
  "induceDipoles E mx thr c ps =
     (let c1 = c + 1;
          res = map (\<lambda>(e, a). induce_particle e a) (zip (pot_field E ps) ps)
      in if c1 > mx
         then Inl (runtime_error ''Field induction reached maximum number of iterations.'')
         else if maxCoeff (map fst res) > thr then induceDipoles E mx thr c1 (map snd res)
         else Inr (c1, map snd res))"
  by pat_completeness auto
termination
  by (relation "measure (\<lambda>(E, mx, thr, c, ps). nat (mx - c))") auto

declare induceDipoles.simps [simp del]

text \<open>\<^verbatim>\<open>PolarizeMove::_trialMove\<close>.\<close>

definition PolarizeMove_trialMove ::
  "collaborators \<Rightarrow> ('a PolarizeMove_scheme) vtable \<Rightarrow> 'a PolarizeMove_scheme \<Rightarrow>
   error + 'a PolarizeMove_scheme" where
  "PolarizeMove_trialMove E T m =
     (case vtrialMove T m of
        Inl e \<Rightarrow> Inl e
      | Inr m1 \<Rightarrow>
          (let m2 = m1\<lparr>Ntrials := Ntrials m1 + 1\<rparr>;
               updateAt = (if mollist m2 \<noteq> []
                           then repeat (map_at MolListData_default (mollist m2) (currentMolId m2))
                           else 1);
               m3 = (if mollist m2 \<noteq> []
                     then m2\<lparr>mollist := map_touch MolListData_default (currentMolId m2) (mollist m2)\<rparr>
                     else m2\<lparr>Ntrials := 1\<rparr>);
               m4 = m3\<lparr>updateDip := (Ntrials m3 = updateAt)\<rparr>
           in if updateDip m4 then
                (case induceDipoles E (max_iter m4) (pol_threshold m4) 0 (trial (spc m4)) of
                   Inl e \<Rightarrow> Inl e
                 | Inr (c, ps) \<Rightarrow>
                     Inr (m4\<lparr>spc := (spc m4)\<lparr>trial := ps\<rparr>,
                             numIter := avg_add (real_of_int c) (numIter m4)\<rparr>))
              else Inr m4))"

text \<open>\<^verbatim>\<open>PolarizeMove::_energyChange\<close>, \<^verbatim>\<open>_rejectMove\<close>, \<^verbatim>\<open>_acceptMove\<close>.\<close>

definition PolarizeMove_energyChange ::
  "collaborators \<Rightarrow> ('a PolarizeMove_scheme) vtable \<Rightarrow> 'a PolarizeMove_scheme \<Rightarrow>
   energy \<times> 'a PolarizeMove_scheme" where
  "PolarizeMove_energyChange E T m =
     (if updateDip m
      then (eminus (systemEnergy E (spc m) (trial (spc m))) (systemEnergy E (spc m) (p (spc m))), m)
      else venergyChange T m)"

definition PolarizeMove_rejectMove ::
  "('a PolarizeMove_scheme) vtable \<Rightarrow> 'a PolarizeMove_scheme \<Rightarrow> 'a PolarizeMove_scheme" where
  "PolarizeMove_rejectMove T m =
     (let m1 = vrejectMove T m
      in if updateDip m1 then m1\<lparr>spc := (spc m1)\<lparr>trial := p (spc m1)\<rparr>\<rparr> else m1)"

definition PolarizeMove_acceptMove ::
  "('a PolarizeMove_scheme) vtable \<Rightarrow> 'a PolarizeMove_scheme \<Rightarrow> 'a PolarizeMove_scheme" where
  "PolarizeMove_acceptMove T m =
     (let m1 = vacceptMove T m
      in if updateDip m1 then m1\<lparr>spc := (spc m1)\<lparr>p := trial (spc m1)\<rparr>\<rparr> else m1)"

definition PolarizeMove_vtable ::
  "collaborators \<Rightarrow> ('a PolarizeMove_scheme) vtable \<Rightarrow> ('a PolarizeMove_scheme) vtable" where
  "PolarizeMove_vtable E T =
     \<lparr>vrun = vrun T,
      vtrialMove = PolarizeMove_trialMove E T,
      venergyChange = PolarizeMove_energyChange E T,
      vacceptMove = PolarizeMove_acceptMove T,
      vrejectMove = PolarizeMove_rejectMove T\<rparr>"

text \<open>\<^verbatim>\<open>PolarizeMove::move\<close> resets \<^verbatim>\<open>Ntrials\<close> and calls the move of the base class.\<close>

definition PolarizeMove_move ::
  "collaborators \<Rightarrow> ('a PolarizeMove_scheme) vtable \<Rightarrow> int \<Rightarrow> 'a PolarizeMove_scheme \<Rightarrow>
   error + energy \<times> 'a PolarizeMove_scheme" where
  "PolarizeMove_move E T n m = move E (PolarizeMove_vtable E T) n (m\<lparr>Ntrials := 0\<rparr>)"

section \<open>The propagator\<close>








section \<open>Configurations for evaluation\<close>


definition rng_const :: "real \<Rightarrow> rng" where
  "rng_const u = \<lparr>draws = (\<lambda>_. u), used = 0\<rparr>"

definition rng_of_list :: "real list \<Rightarrow> rng" where
  "rng_of_list us = \<lparr>draws = (\<lambda>n. if n < length us then us ! n else 0), used = 0\<rparr>"

definition space_empty :: space where
  "space_empty = \<lparr>p = [], trial = [], groupList = [], atomTrack = (\<lambda>_. []),
                   geo_len = (1, 1, 1), geo_trial_len = (1, 1, 1)\<rparr>"

text \<open>A move without configuration change whose energy change is a given constant.\<close>

definition const_move :: "energy \<Rightarrow> ('a movebase_scheme) vtable" where
  "const_move du = \<lparr>vrun = run, vtrialMove = Inr, venergyChange = (\<lambda>m. (du, m)),
                     vacceptMove = (\<lambda>m. m), vrejectMove = (\<lambda>m. m)\<rparr>"

text \<open>An ideal system: no interaction, free translation, Euclidean distance along x.\<close>

definition no_collaborators :: collaborators where
  "no_collaborators =
     \<lparr>numMolecules = (\<lambda>s k. int (length (findMolecules s k))),
      massCenter = (\<lambda>ps g. (0, 0, 0)),
      pot_update = (\<lambda>s b. Fin 0),
      pot_energyChange = (\<lambda>s c. Fin 0),
      pot_g_external = (\<lambda>ps g. Fin 0),
      pot_i_external = (\<lambda>ps i. Fin 0),
      pot_g2g = (\<lambda>ps g h. Fin 0),
      pot_field = (\<lambda>ps. map (\<lambda>a. (0, 0, 0)) ps),
      systemEnergy = (\<lambda>s ps. Fin 0),
      pot_i2i = (\<lambda>ps i j. Fin 0),
      pot_i_total = (\<lambda>ps i. Fin 0),
      pot_v2v = (\<lambda>ps qs. Fin 0),
      pot_p2p = (\<lambda>a b. Fin 0),
      pot_p_external = (\<lambda>a. Fin 0),
      atom_dp = (\<lambda>k. 1),
      geo_translate = (\<lambda>t a. a\<lparr>ppos := (fst (ppos a) + fst t, fst (snd (ppos a)) + fst (snd t),
                                           snd (snd (ppos a)) + snd (snd t))\<rparr>),
      geo_sqdist = (\<lambda>a b. (fst (ppos a) - fst (ppos b))\<^sup>2),
      geo_collision = (\<lambda>a. False),
      geo_randompos = (\<lambda>a r. (a, r)),
      spc_insert = (\<lambda>s k ps. (s, None)),
      spc_erase = (\<lambda>s i. s),
      geo_getVolume = (\<lambda>l. fst l * fst (snd l) * snd (snd l)),
      len_scale = (\<lambda>l s xyz xy. (fst l * xyz, fst (snd l) * xyz, snd (snd l) * xyz)),
      group_scale = (\<lambda>s j c xyz xy. s),
      ranunit = (\<lambda>r. ((1, 0, 0), r)),
      group_rotate = (\<lambda>s j e a. s),
      group_translate = (\<lambda>s j t. s),
      vrot = (\<lambda>b e a x. x)\<rparr>"


definition ex_group :: "nat \<Rightarrow> nat \<Rightarrow> int \<Rightarrow> bool \<Rightarrow> group" where
  "ex_group f n k mol =
     \<lparr>front = f, gsize = n, molId = k, isMolecular = mol, cm = (0, 0, 0), cm_trial = (0, 0, 0)\<rparr>"

definition ex_particle :: "int \<Rightarrow> real \<Rightarrow> particle" where
  "ex_particle k x = \<lparr>ppos = (x, 0, 0), charge = 0, pid = k, radius = 1, mu = (0, 0, 0),
                       muscalar = 0, alpha = (\<lambda>e. (0, 0, 0)), mup = (0, 0, 0)\<rparr>"

text \<open>Six particles of one atom type on a line, in two atomic groups of molecule type 0.\<close>

definition ex_space :: space where
  "ex_space =
     \<lparr>p = map (ex_particle 1) [0, 3, 6, 9, 12, 15],
      trial = map (ex_particle 1) [0, 3, 6, 9, 12, 15],
      groupList = [ex_group 0 3 0 False, ex_group 3 3 0 False],
      atomTrack = (\<lambda>k. if k = 1 then [0, 1, 2, 3, 4, 5] else []),
      geo_len = (10, 10, 10), geo_trial_len = (10, 10, 10)\<rparr>"


text \<open>
  A macromolecule of one particle at the origin and one mobile ion at x = 10, radius 1
  each, cluster threshold 1; in the trial configuration the macromolecule stands at
  \<open>x\<close>. The external potential on the macromolecule is \<open>ln 2\<close> per unit of x.
\<close>

definition ex_cluster_space :: "real \<Rightarrow> space" where
  "ex_cluster_space x =
     \<lparr>p = [ex_particle 1 0, ex_particle 2 10],
      trial = [ex_particle 1 x, ex_particle 2 10],
      groupList = [ex_group 0 1 0 True, ex_group 1 1 1 False],
      atomTrack = (\<lambda>k. if k = 1 then [0] else if k = 2 then [1] else []),
      geo_len = (10, 10, 10), geo_trial_len = (10, 10, 10)\<rparr>"

definition ex_cluster :: "real \<Rightarrow> TranslateRotateCluster" where
  "ex_cluster x =
     \<lparr>cnt = 1, cnt_accepted = 0, dusum = Fin 0, runfraction = 1,
      change = \<lparr>mvGroup = [], geometryChange = False, dV = 0\<rparr>,
      useAlternativeReturnEnergy = False, alternateReturnEnergy = Fin 0,
      mollist = [], currentMolId = 0, spc = ex_cluster_space x,
      slump = rng_const (1 / 2), Movebase_slump = rng_const (1 / 2),
      tr_igroup = Some 0, dp_rot = 0, dp_trans = 20, angle = 0, tr_dir = (1, 1, 1),
      cindex = [], gmobile = Some 1, threshold = 1, avgsize = (0, 0), avgbias = (0, 0)\<rparr>"

definition ex_potential :: collaborators where
  "ex_potential = no_collaborators\<lparr>pot_g_external := (\<lambda>ps g. Fin (ln 2 * fst (ppos (ps ! front g))))\<rparr>"

text \<open>
  The same pair with the cluster threshold zero and without displacement; the mobile
  ion stands at \<open>x\<close>, both in the committed and in the trial vector.
\<close>

definition ex_contact_space :: "real \<Rightarrow> space" where
  "ex_contact_space x =
     \<lparr>p = [ex_particle 1 0, ex_particle 2 x],
      trial = [ex_particle 1 0, ex_particle 2 x],
      groupList = [ex_group 0 1 0 True, ex_group 1 1 1 False],
      atomTrack = (\<lambda>k. if k = 1 then [0] else if k = 2 then [1] else []),
      geo_len = (10, 10, 10), geo_trial_len = (10, 10, 10)\<rparr>"


text \<open>An isobaric move on the pair of a molecular and an atomic group, volume 1000.\<close>

definition ex_isobaric :: Isobaric where
  "ex_isobaric =
     \<lparr>cnt = 0, cnt_accepted = 0, dusum = Fin 0, runfraction = 1,
      change = \<lparr>mvGroup = [], geometryChange = False, dV = 0\<rparr>,
      useAlternativeReturnEnergy = False, alternateReturnEnergy = Fin 0,
      mollist = [], currentMolId = 0, spc = ex_contact_space 10,
      slump = rng_const (1 / 2), Movebase_slump = rng_const (1 / 2),
      iso_P = 1, iso_dp = 1, oldval = 0, newval = 0, oldlen = (0, 0, 0), newlen = (0, 0, 0),
      msd = (0, 0), val = (0, 0), rval = (0, 0)\<rparr>"

text \<open>
  A salt move with one cation and one anion type on a space without particles. The
  variates choose the anion type, the cation type, the deletion, and pass the Metropolis
  test.
\<close>

definition ex_ion :: "int \<Rightarrow> real \<Rightarrow> ionprop" where
  "ex_ion k z = \<lparr>ion_p = \<lparr>ppos = (0, 0, 0), charge = z, pid = k, radius = 1, mu = (0, 0, 0),
                           muscalar = 0, alpha = (\<lambda>e. (0, 0, 0)), mup = (0, 0, 0)\<rparr>,
                  chempot = 0, rho = (0, 0)\<rparr>"

definition ex_salt :: GrandCanonicalSalt where
  "ex_salt =
     \<lparr>cnt = 0, cnt_accepted = 0, dusum = Fin 0, runfraction = 1,
      change = \<lparr>mvGroup = [], geometryChange = False, dV = 0\<rparr>,
      useAlternativeReturnEnergy = True, alternateReturnEnergy = Fin 0,
      mollist = [], currentMolId = 0, spc = space_empty,
      slump = rng_of_list [3 / 4, 1 / 4, 3 / 4, 1 / 2], Movebase_slump = rng_const (1 / 2),
      gc_map = [(1, ex_ion 1 1), (2, ex_ion 2 (- 1))], trial_insert = [], trial_delete = [],
      ida = 0, idb = 0, saltPtr = None, saltmolid = 0\<rparr>"


text \<open>
  A polarised move on the six-particle space whose move-list entry has the repeat count
  \<open>n\<close>; the particles have no polarisability and no permanent dipole.
\<close>

definition ex_polar :: "int \<Rightarrow> PolarizeMove" where
  "ex_polar n =
     \<lparr>cnt = 0, cnt_accepted = 0, dusum = Fin 0, runfraction = 1,
      change = \<lparr>mvGroup = [], geometryChange = False, dV = 0\<rparr>,
      useAlternativeReturnEnergy = False, alternateReturnEnergy = Fin 0,
      mollist = [(0, MolListData_default\<lparr>perMol := True, repeat := n\<rparr>)], currentMolId = 0,
      spc = ex_space, slump = rng_const (1 / 2), Movebase_slump = rng_const (1 / 2),
      Ntrials = 0, max_iter = 40, pol_threshold = 1 / 1000, updateDip = False, numIter = (0, 0)\<rparr>"






section \<open>The Metropolis test\<close>



section \<open>Selection of the molecule id\<close>







section \<open>Synchronisation of the particle vectors\<close>







lemma p_sync_cm [simp]: "p (sync_cm a s i) = p s" "trial (sync_cm a s i) = trial s"
  by (auto simp add: sync_cm_def Let_def split: option.splits)





lemma update_cm_trial_simps [simp]:
  "p (update_cm_trial E s i) = p s" "trial (update_cm_trial E s i) = trial s"
  by (auto simp add: update_cm_trial_def Let_def split: option.splits)
















section \<open>Acceptance of the cluster move\<close>

lemma fold_bias:
  "fold (\<lambda>l b. if l \<notin> C then b * f l else b) xs a
     = a * prod_list (map f (filter (\<lambda>l. l \<notin> C) xs))"
  by (induction xs arbitrary: a) (simp_all add: mult.assoc)

lemma TRC_bias_prod:
  "TRC_bias cp m =
     prod_list (map (\<lambda>l. (1 - cp m (trial (spc m)) l) / (1 - cp m (p (spc m)) l))
                  (filter (\<lambda>l. l \<notin> set (cindex m)) (gmobile_indices m)))"
  by (simp add: TRC_bias_def fold_bias)

lemma metropolis_fst: "fst (metropolis e m) \<longleftrightarrow> \<not> real_gt (draws (slump m) (used (slump m))) (exp_neg e)"
  by (simp add: metropolis_def rng_uniform_def)

text \<open>
  C3. In the cluster move the bias is the product, over the mobile particles that are not
  in the cluster, of \<open>(1 - P_new l) / (1 - P_old l)\<close>. If the bias is below \<open>10\<^sup>-\<^sup>7\<close> the
  energy change is \<^verbatim>\<open>pc::infty\<close> whatever the Hamiltonian is, and the trial is rejected for
  every variate \<open>u > 0\<close>. Otherwise, for a move with a displacement, without collision
  and with finite energies whose sum is \<open>dU = a - b + c\<close>, the trial is accepted if and
  only if \<open>u \<le> bias \<cdot> exp (- dU)\<close>: it is rejected if and only if \<open>u\<close> exceeds
  that value.
\<close>

theorem cluster_acceptance:
  fixes m :: "'a TranslateRotateCluster_scheme"
  assumes e: "TranslateRotateCluster_energyChange cp E m = (e, m1)"
    and u: "draws (slump m1) (used (slump m1)) = u"
  shows "TRC_bias cp m =
           prod_list (map (\<lambda>l. (1 - cp m (trial (spc m)) l) / (1 - cp m (p (spc m)) l))
                        (filter (\<lambda>l. l \<notin> set (cindex m)) (gmobile_indices m)))
       \<and> (TRC_bias cp m < 1 / 10000000 \<longrightarrow>
            e = PInf \<and> (\<forall>E'. fst (TranslateRotateCluster_energyChange cp E' m) = PInf)
            \<and> (0 < u \<longrightarrow> \<not> fst (metropolis e m1)))
       \<and> (\<not> TRC_bias cp m < 1 / 10000000
            \<and> \<not> (dp_rot m < 1 / 1000000 \<and> dp_trans m < 1 / 1000000)
            \<and> \<not> list_ex (\<lambda>i. geo_collision E (trial (spc m) ! i)) (TRC_imoved m)
            \<and> tr_igroup m = Some j
            \<and> pot_g_external E (trial (spc m)) (groupList (spc m) ! j) \<noteq> PInf
            \<and> TRC_uext E m (trial (spc m)) (pot_g_external E (trial (spc m)) (groupList (spc m) ! j)) = Fin a
            \<and> TRC_uext E m (p (spc m)) (pot_g_external E (p (spc m)) (groupList (spc m) ! j)) = Fin b
            \<and> TRC_du E m = Fin c
          \<longrightarrow> (fst (metropolis e m1) \<longleftrightarrow> u \<le> TRC_bias cp m * exp (- (a - b + c))))"
proof (intro conjI impI)
  show "TRC_bias cp m =
           prod_list (map (\<lambda>l. (1 - cp m (trial (spc m)) l) / (1 - cp m (p (spc m)) l))
                        (filter (\<lambda>l. l \<notin> set (cindex m)) (gmobile_indices m)))"
    by (rule TRC_bias_prod)
next
  assume b: "TRC_bias cp m < 1 / 10000000"
  show "e = PInf"
    using e b by (simp add: TranslateRotateCluster_energyChange_def Let_def)
  then show "\<not> fst (metropolis e m1)" if "0 < u"
    using that u by (simp add: metropolis_fst)
  show "\<forall>E'. fst (TranslateRotateCluster_energyChange cp E' m) = PInf"
    using b by (simp add: TranslateRotateCluster_energyChange_def Let_def)
next
  assume h: "\<not> TRC_bias cp m < 1 / 10000000
            \<and> \<not> (dp_rot m < 1 / 1000000 \<and> dp_trans m < 1 / 1000000)
            \<and> \<not> list_ex (\<lambda>i. geo_collision E (trial (spc m) ! i)) (TRC_imoved m)
            \<and> tr_igroup m = Some j
            \<and> pot_g_external E (trial (spc m)) (groupList (spc m) ! j) \<noteq> PInf
            \<and> TRC_uext E m (trial (spc m)) (pot_g_external E (trial (spc m)) (groupList (spc m) ! j)) = Fin a
            \<and> TRC_uext E m (p (spc m)) (pot_g_external E (p (spc m)) (groupList (spc m) ! j)) = Fin b
            \<and> TRC_du E m = Fin c"
  let ?b = "TRC_bias cp m"
  have pos: "0 < ?b" using h by simp
  have "e = Fin (a - b + c - ln ?b)"
    using e h by (auto simp add: TranslateRotateCluster_energyChange_def Let_def eminus_def)
  then have "fst (metropolis e m1) \<longleftrightarrow> \<not> u > exp (- (a - b + c - ln ?b))"
    using u by (simp add: metropolis_fst)
  moreover have "exp (- (a - b + c - ln ?b)) = ?b * exp (- (a - b + c))"
  proof -
    have "exp (- (a - b + c - ln ?b)) = exp (ln ?b) * exp (- (a - b + c))"
      by (simp add: exp_add [symmetric])
    then show ?thesis using pos by simp
  qed
  ultimately show "fst (metropolis e m1) \<longleftrightarrow> u \<le> ?b * exp (- (a - b + c))"
    by auto
qed

lemma ex_cluster_fields:
  "spc (ex_cluster x) = ex_cluster_space x" "cindex (ex_cluster x) = []"
  "tr_igroup (ex_cluster x) = Some 0" "gmobile (ex_cluster x) = Some 1"
  "threshold (ex_cluster x) = 1" "dp_rot (ex_cluster x) = 0" "dp_trans (ex_cluster x) = 20"
  "slump (ex_cluster x) = rng_const (1 / 2)" "avgbias (ex_cluster x) = (0, 0)"
  by (simp_all add: ex_cluster_def)

lemma ex_cluster_space_fields:
  "p (ex_cluster_space x) = [ex_particle 1 0, ex_particle 2 10]"
  "trial (ex_cluster_space x) = [ex_particle 1 x, ex_particle 2 10]"
  "groupList (ex_cluster_space x) = [ex_group 0 1 0 True, ex_group 1 1 1 False]"
  by (simp_all add: ex_cluster_space_def)

lemma ex_potential_fields:
  "pot_g_external ex_potential = (\<lambda>ps g. Fin (ln 2 * fst (ppos (ps ! front g))))"
  "pot_i_external ex_potential = (\<lambda>ps i. Fin 0)"
  "pot_i2i ex_potential = (\<lambda>ps i j. Fin 0)"
  "geo_sqdist ex_potential = (\<lambda>a b. (fst (ppos a) - fst (ppos b))\<^sup>2)"
  "geo_collision ex_potential = (\<lambda>a. False)"
  by (simp_all add: ex_potential_def no_collaborators_def)

lemmas ex_cluster_simps =
  ex_cluster_fields ex_cluster_space_fields ex_potential_fields ex_particle_def ex_group_def

lemma ex_cluster_indices:
  "igroup_indices (ex_cluster x) = [0]" "gmobile_indices (ex_cluster x) = [Suc 0]"
  "TRC_imoved (ex_cluster x) = [0]"
  by (simp_all add: igroup_indices_def gmobile_indices_def TRC_imoved_def group_indices_def
      ex_cluster_simps)

lemma ex_cluster_probability:
  "ClusterProbability ex_potential (ex_cluster x) (p (spc (ex_cluster x))) (Suc 0) = 0"
  "ClusterProbability ex_potential (ex_cluster 1) (trial (spc (ex_cluster 1))) (Suc 0) = 0"
  "ClusterProbability ex_potential (ex_cluster 8) (trial (spc (ex_cluster 8))) (Suc 0) = 1"
  by (simp_all add: ClusterProbability_def ex_cluster_indices ex_cluster_simps power2_eq_square)

lemma ex_cluster_bias:
  "TRC_bias (ClusterProbability ex_potential) (ex_cluster 1) = 1"
  "TRC_bias (ClusterProbability ex_potential) (ex_cluster 8) = 0"
  by (simp_all add: TRC_bias_def ex_cluster_indices ex_cluster_probability ex_cluster_fields(2))

lemma ex_cluster_energies:
  "TRC_uext ex_potential (ex_cluster 1) (trial (spc (ex_cluster 1)))
     (pot_g_external ex_potential (trial (spc (ex_cluster 1))) (groupList (spc (ex_cluster 1)) ! 0)) = Fin (ln 2)"
  "TRC_uext ex_potential (ex_cluster 1) (p (spc (ex_cluster 1)))
     (pot_g_external ex_potential (p (spc (ex_cluster 1))) (groupList (spc (ex_cluster 1)) ! 0)) = Fin 0"
  "TRC_du ex_potential (ex_cluster 1) = Fin 0"
  by (simp_all add: TRC_uext_def TRC_du_def ex_cluster_indices ex_cluster_simps eminus_def upt_rec)

lemma ex_cluster_energyChange:
  "TranslateRotateCluster_energyChange (ClusterProbability ex_potential) ex_potential (ex_cluster 1)
     = (Fin (ln 2), (ex_cluster 1)\<lparr>avgbias := (1, 1)\<rparr>)"
  using ex_cluster_energies
  by (simp add: TranslateRotateCluster_energyChange_def Let_def ex_cluster_bias ex_cluster_indices
      ex_cluster_fields ex_cluster_space_fields ex_potential_fields ex_group_def ex_particle_def
      avg_add_def eminus_def)

text \<open>
  The criterion with a strict inequality fails where the variate equals
  \<open>bias \<cdot> exp (- dU)\<close>: with bias 1, \<open>dU = ln 2\<close> and the variate \<open>1 / 2\<close> the trial is
  accepted.
\<close>

theorem cluster_criterion_counterexample:
  "TRC_bias (ClusterProbability ex_potential) (ex_cluster 1) = 1
   \<and> TranslateRotateCluster_energyChange (ClusterProbability ex_potential) ex_potential (ex_cluster 1)
       = (Fin (ln 2 - ln 1), (ex_cluster 1)\<lparr>avgbias := (1, 1)\<rparr>)
   \<and> draws (slump ((ex_cluster 1)\<lparr>avgbias := (1, 1)\<rparr>)) (used (slump ((ex_cluster 1)\<lparr>avgbias := (1, 1)\<rparr>))) = 1 / 2
   \<and> fst (metropolis (Fin (ln 2 - ln 1)) ((ex_cluster 1)\<lparr>avgbias := (1, 1)\<rparr>))
   \<and> \<not> (1 / 2 < 1 * exp (- ln (2 :: real)))"
  using ex_cluster_energyChange
  by (simp add: ex_cluster_bias metropolis_fst exp_minus ex_cluster_fields rng_const_def)

theorem cluster_acceptance_witness:
  "(fst (metropolis (Fin (ln 2)) ((ex_cluster 1)\<lparr>avgbias := (1, 1)\<rparr>)) \<longleftrightarrow> 1 / 2 \<le> 1 * exp (- (ln 2 - 0 + 0 :: real)))
   \<and> \<not> fst (metropolis PInf (snd (TranslateRotateCluster_energyChange (ClusterProbability ex_potential) ex_potential (ex_cluster 8))))"
proof -
  let ?cp = "ClusterProbability ex_potential"
  have u: "draws (slump ((ex_cluster 1)\<lparr>avgbias := (1, 1)\<rparr>))
             (used (slump ((ex_cluster 1)\<lparr>avgbias := (1, 1)\<rparr>))) = 1 / 2"
    by (simp add: ex_cluster_fields rng_const_def)
  have h: "\<not> TRC_bias ?cp (ex_cluster 1) < 1 / 10000000
            \<and> \<not> (dp_rot (ex_cluster 1) < 1 / 1000000 \<and> dp_trans (ex_cluster 1) < 1 / 1000000)
            \<and> \<not> list_ex (\<lambda>i. geo_collision ex_potential (trial (spc (ex_cluster 1)) ! i)) (TRC_imoved (ex_cluster 1))
            \<and> tr_igroup (ex_cluster 1) = Some 0
            \<and> pot_g_external ex_potential (trial (spc (ex_cluster 1))) (groupList (spc (ex_cluster 1)) ! 0) \<noteq> PInf"
    by (simp add: ex_cluster_bias ex_cluster_indices ex_cluster_fields ex_potential_fields)
  have first: "fst (metropolis (Fin (ln 2)) ((ex_cluster 1)\<lparr>avgbias := (1, 1)\<rparr>))
                 \<longleftrightarrow> 1 / 2 \<le> 1 * exp (- (ln 2 - 0 + 0 :: real))"
    using cluster_acceptance [OF ex_cluster_energyChange u, of 0 "ln 2" 0 0] h ex_cluster_energies
    by (simp add: ex_cluster_bias)
  obtain e m1 where e: "TranslateRotateCluster_energyChange ?cp ex_potential (ex_cluster 8) = (e, m1)"
    by fastforce
  have u8: "draws (slump m1) (used (slump m1)) = 1 / 2"
    using e by (auto simp add: TranslateRotateCluster_energyChange_def Let_def ex_cluster_bias
        ex_cluster_fields rng_const_def)
  have "e = PInf \<and> \<not> fst (metropolis e m1)"
    using cluster_acceptance [OF e u8, of 0 0 0 0] by (auto simp add: ex_cluster_bias)
  with e first show ?thesis by auto
qed

section \<open>The cluster at threshold zero\<close>











section \<open>The change descriptor of the volume move\<close>

lemma map_of_replace_at:
  "map_of (map (\<lambda>(k', v'). if k' = k then (k', v) else (k', v')) m) x
     = (if x = k \<and> k \<in> fst ` set m then Some v else map_of m x)"
proof (induction m)
  case Nil
  then show ?case by simp
next
  case (Cons a m)
  obtain k' v' where a: "a = (k', v')" by (cases a)
  show ?case
  proof (cases "k' = k")
    case True
    then show ?thesis using Cons.IH a by simp
  next
    case False
    then show ?thesis using Cons.IH a by (cases "x = k'") simp_all
  qed
qed

lemma map_of_replace:
  "k \<in> fst ` set m \<Longrightarrow>
   map_of (map (\<lambda>(k', v'). if k' = k then (k', v) else (k', v')) m) = (map_of m)(k \<mapsto> v)"
  by (rule ext) (simp add: map_of_replace_at)

lemma map_of_insort:
  "k \<notin> fst ` set m \<Longrightarrow> map_of (insort_key fst (k, v) m) = (map_of m)(k \<mapsto> v)"
  by (induction m) (auto simp add: fun_eq_iff)

lemma map_of_map_assign: "map_of (map_assign k v m) = (map_of m)(k \<mapsto> v)"
  by (simp add: map_assign_def map_of_replace map_of_insort)

lemma register_group_lookup:
  "map_of (register_group gl j mv) =
     (map_of mv)(int j \<mapsto> (if isAtomic (gl ! j) then map int (group_indices (gl ! j)) else []))"
  by (simp add: register_group_def map_of_map_assign)

lemma register_fold_lookup:
  "j < n \<Longrightarrow>
   map_of (fold (register_group gl) [0 ..< n] mv) (int j)
     = Some (if isAtomic (gl ! j) then map int (group_indices (gl ! j)) else [])"
proof (induction n)
  case 0
  then show ?case by simp
next
  case (Suc n)
  show ?case
  proof (cases "j = n")
    case True
    then show ?thesis by (simp add: register_group_lookup)
  next
    case False
    with Suc have "j < n" by simp
    with Suc.IH False show ?thesis by (simp add: register_group_lookup)
  qed
qed

text \<open>
  C5. The isobaric trial move, with \<open>u\<close> the next variate of the global generator and
  \<open>V\<close> the volume of the committed geometry, proposes the volume
  \<open>exp (ln V + dp \<cdot> (u - 1/2))\<close> and leaves in the Change object the flag
  \<^verbatim>\<open>geometryChange\<close>, the difference of the two volumes in \<^verbatim>\<open>dV\<close>, and for every group of
  the space, under its position in the group list, all the particle indices of the group
  when it is atomic and the empty list when it is molecular.
\<close>

theorem isobaric_trial:
  fixes m :: "'a Isobaric_scheme"
  assumes u: "draws (slump m) (used (slump m)) = u"
    and V: "geo_getVolume E (geo_len (spc m)) = V"
    and m': "Isobaric_trialMove E m = m'"
  shows "newval m' = exp (ln V + iso_dp m * (u - 1 / 2))
       \<and> geometryChange (change m')
       \<and> dV (change m') = newval m' - V
       \<and> (\<forall>j < length (groupList (spc m')).
             map_of (mvGroup (change m')) (int j)
               = Some (if isAtomic (groupList (spc m') ! j)
                       then map int [front (groupList (spc m') ! j) ..<
                                     front (groupList (spc m') ! j) + gsize (groupList (spc m') ! j)]
                       else []))"
proof -
  have h: "rng_half (slump m) = (u - 1 / 2, (slump m)\<lparr>used := Suc (used (slump m))\<rparr>)"
    using u by (simp add: rng_half_def rng_uniform_def)
  have nv: "newval m' = exp (ln V + iso_dp m * (u - 1 / 2))"
    using m' V h by (auto simp add: Isobaric_trialMove_def Let_def mult.commute)
  have gc: "geometryChange (change m')" and dv: "dV (change m') = newval m' - V"
    using m' V h by (auto simp add: Isobaric_trialMove_def Let_def)
  have mv: "mvGroup (change m') = register_groups (groupList (spc m')) (mvGroup (change m))"
    using m' h by (auto simp add: Isobaric_trialMove_def Let_def)
  show ?thesis
    using nv gc dv by (simp add: mv register_groups_def register_fold_lookup group_indices_def)
qed

lemma ex_isobaric_groups:
  "groupList (spc (Isobaric_trialMove no_collaborators ex_isobaric))
     = [ex_group 0 1 0 True, ex_group 1 1 1 False]"
  by (simp add: Isobaric_trialMove_def Let_def rng_half_def rng_uniform_def scale_groups_def
      ex_isobaric_def ex_contact_space_def no_collaborators_def setMassCenter_def ex_group_def
      upt_rec)

theorem isobaric_trial_witness:
  "newval (Isobaric_trialMove no_collaborators ex_isobaric) = 1000
   \<and> dV (change (Isobaric_trialMove no_collaborators ex_isobaric)) = 0
   \<and> map_of (mvGroup (change (Isobaric_trialMove no_collaborators ex_isobaric))) 0 = Some []
   \<and> map_of (mvGroup (change (Isobaric_trialMove no_collaborators ex_isobaric))) 1 = Some [1]"
proof -
  have u: "draws (slump ex_isobaric) (used (slump ex_isobaric)) = 1 / 2"
    by (simp add: ex_isobaric_def rng_const_def)
  have V: "geo_getVolume no_collaborators (geo_len (spc ex_isobaric)) = 1000"
    by (simp add: ex_isobaric_def ex_contact_space_def no_collaborators_def)
  have d: "iso_dp ex_isobaric = 1" by (simp add: ex_isobaric_def)
  note t = isobaric_trial [OF u V refl]
  have a: "newval (Isobaric_trialMove no_collaborators ex_isobaric) = 1000"
    using t by (simp add: d)
  have b: "dV (change (Isobaric_trialMove no_collaborators ex_isobaric)) = 0"
    using t a by simp
  have all: "\<forall>j < 2. map_of (mvGroup (change (Isobaric_trialMove no_collaborators ex_isobaric))) (int j)
               = Some (if isAtomic ([ex_group 0 1 0 True, ex_group 1 1 1 False] ! j)
                       then map int [front ([ex_group 0 1 0 True, ex_group 1 1 1 False] ! j) ..<
                                     front ([ex_group 0 1 0 True, ex_group 1 1 1 False] ! j)
                                       + gsize ([ex_group 0 1 0 True, ex_group 1 1 1 False] ! j)]
                       else [])"
    using t by (simp add: ex_isobaric_groups)
  have "map_of (mvGroup (change (Isobaric_trialMove no_collaborators ex_isobaric))) 0 = Some []"
    using all [rule_format, of 0] by (simp add: isAtomic_def ex_group_def)
  moreover have "map_of (mvGroup (change (Isobaric_trialMove no_collaborators ex_isobaric))) 1 = Some [1]"
    using all [rule_format, of 1] by (simp add: isAtomic_def ex_group_def)
  ultimately show ?thesis using a b by simp
qed

section \<open>Deletion without inventory\<close>

lemma eplus_zero [simp]: "eplus x (Fin 0) = x"
  by (cases x) simp_all

lemma GCS_noop_trial:
  fixes m :: "'a GrandCanonicalSalt_scheme"
  assumes pair: "randomIonPair (gc_map m) (slump m) = Some (Inr (a, b, r1))"
    and del: "rng_range 0 1 r1 = (1, r2)"
    and short: "length (atomTrack (spc m) a) < GCS_count m b \<or> length (atomTrack (spc m) b) < GCS_count m a"
  shows "GrandCanonicalSalt_trialMove E m
           = Some (Inr (m\<lparr>slump := r2, trial_insert := [], trial_delete := [], ida := a, idb := b\<rparr>))"
  using assms
  by (simp add: GrandCanonicalSalt_trialMove_def Let_def GCS_count_def GCS_delete_def)

lemma GCS_noop_energy:
  assumes "trial_insert m = []" "trial_delete m = []"
  shows "GrandCanonicalSalt_energyChange E m = (Fin 0, m\<lparr>alternateReturnEnergy := Fin 0\<rparr>)"
  using assms by (simp add: GrandCanonicalSalt_energyChange_def GCS_energies_def Let_def eminus_def)

lemma GCS_sample_rho_keeps:
  "spc (GCS_sample_rho E m) = spc m" "cnt (GCS_sample_rho E m) = cnt m"
  "cnt_accepted (GCS_sample_rho E m) = cnt_accepted m" "dusum (GCS_sample_rho E m) = dusum m"
  "alternateReturnEnergy (GCS_sample_rho E m) = alternateReturnEnergy m"
  "useAlternativeReturnEnergy (GCS_sample_rho E m) = useAlternativeReturnEnergy m"
  "trial_insert (GCS_sample_rho E m) = trial_insert m" "trial_delete (GCS_sample_rho E m) = trial_delete m"
  "change (GCS_sample_rho E m) = change m"
  by (simp_all add: GCS_sample_rho_def Let_def)

lemma GCS_noop_accept:
  assumes "trial_insert m = []" "trial_delete m = []"
  shows "spc (GrandCanonicalSalt_acceptMove E m) = spc m"
    and "cnt (GrandCanonicalSalt_acceptMove E m) = cnt m"
    and "cnt_accepted (GrandCanonicalSalt_acceptMove E m) = cnt_accepted m"
    and "dusum (GrandCanonicalSalt_acceptMove E m) = dusum m"
    and "alternateReturnEnergy (GrandCanonicalSalt_acceptMove E m) = alternateReturnEnergy m"
    and "trial_insert (GrandCanonicalSalt_acceptMove E m) = []"
    and "trial_delete (GrandCanonicalSalt_acceptMove E m) = []"
  using assms by (simp_all add: GrandCanonicalSalt_acceptMove_def Let_def GCS_sample_rho_keeps)

text \<open>
  C6. A trial of the salt move in which the ion pair \<open>(a, b)\<close> is chosen, the variate
  selects the deletion, and the tracker holds fewer particles of type \<open>a\<close> or of type
  \<open>b\<close> than the pair needs: the pass of \<^verbatim>\<open>Movebase::move\<close> counts the trial
  (\<open>cnt\<close> grows by one), the energy change is zero and, the Metropolis variate being
  at most one, the trial is accepted, not rejected (\<open>cnt_accepted\<close> grows by one); the
  energy reported is zero (\<open>alternateReturnEnergy\<close> is zero, \<open>dusum\<close> keeps its value,
  the return value grows by \<^verbatim>\<open>pot->update\<close> only), and the two particle vectors keep their
  value.
\<close>

theorem GrandCanonicalSalt_insufficient_inventory:
  fixes m :: "'a GrandCanonicalSalt_scheme"
  assumes pair: "randomIonPair (gc_map m) (slump m) = Some (Inr (a, b, r1))"
    and del: "rng_range 0 1 r1 = (1, r2)"
    and short: "length (atomTrack (spc m) a) < GCS_count m b \<or> length (atomTrack (spc m) b) < GCS_count m a"
    and u: "draws r2 (used r2) \<le> 1"
  shows "\<exists>m1 utot' m'.
           trialMove E (GrandCanonicalSalt_vtable E) m = Inr m1
         \<and> fst (GrandCanonicalSalt_energyChange E m1) = Fin 0
         \<and> move_trial E (GrandCanonicalSalt_vtable E) (utot, m) = Inr (True, utot', m')
         \<and> cnt m' = Suc (cnt m) \<and> cnt_accepted m' = Suc (cnt_accepted m)
         \<and> alternateReturnEnergy m' = Fin 0 \<and> dusum m' = dusum m
         \<and> utot' = eplus utot (pot_update E (spc m') True)
         \<and> p (spc m') = p (spc m) \<and> trial (spc m') = trial (spc m)
         \<and> trial_insert m' = [] \<and> trial_delete m' = []"
proof -
  let ?V = "GrandCanonicalSalt_vtable E"
  let ?w = "(if cnt m = 0 then m\<lparr>spc := setMassCenters E (spc m)\<rparr> else m)"
  let ?mw = "?w\<lparr>cnt := Suc (cnt ?w)\<rparr>"
  let ?m1 = "?mw\<lparr>slump := r2, trial_insert := [], trial_delete := [], ida := a, idb := b\<rparr>"
  have w: "gc_map ?mw = gc_map m" "slump ?mw = slump m" "atomTrack (spc ?mw) = atomTrack (spc m)"
    "GCS_count ?mw = GCS_count m" "cnt ?mw = Suc (cnt m)" "p (spc ?mw) = p (spc m)"
    "trial (spc ?mw) = trial (spc m)" "cnt_accepted ?mw = cnt_accepted m" "dusum ?mw = dusum m"
    by (simp_all add: setMassCenters_def GCS_count_def fun_eq_iff)
  have "GrandCanonicalSalt_trialMove E ?mw = Some (Inr ?m1)"
  proof (rule GCS_noop_trial)
    show "randomIonPair (gc_map ?mw) (slump ?mw) = Some (Inr (a, b, r1))"
      using pair by (simp only: w)
    show "rng_range 0 1 r1 = (1, r2)"
      by (rule del)
    show "length (atomTrack (spc ?mw) a) < GCS_count ?mw b
          \<or> length (atomTrack (spc ?mw) b) < GCS_count ?mw a"
      using short by (simp only: w)
  qed
  then have t: "trialMove E ?V m = Inr ?m1"
    by (simp add: trialMove_def Let_def GrandCanonicalSalt_vtable_def)
  let ?m2 = "?m1\<lparr>alternateReturnEnergy := Fin 0\<rparr>"
  have e: "GrandCanonicalSalt_energyChange E ?m1 = (Fin 0, ?m2)"
    by (rule GCS_noop_energy) simp_all
  let ?m3 = "?m2\<lparr>slump := r2\<lparr>used := Suc (used r2)\<rparr>\<rparr>"
  have mt: "metropolis (Fin 0) ?m2 = (True, ?m3)"
    using u by (simp add: metropolis_def rng_uniform_def)
  let ?m4 = "acceptMove ?V ?m3"
  have a4: "spc ?m4 = spc ?m3" "cnt ?m4 = cnt ?m3" "cnt_accepted ?m4 = Suc (cnt_accepted ?m3)"
    "dusum ?m4 = dusum ?m3" "alternateReturnEnergy ?m4 = Fin 0"
    "trial_insert ?m4 = []" "trial_delete ?m4 = []"
    by (simp_all add: acceptMove_def GrandCanonicalSalt_vtable_def GCS_noop_accept)
  let ?m5 = "?m4\<lparr>dusum := dusum ?m4\<rparr>"
  have d: "move_decide E ?V utot ?m1
             = (True, eplus utot (pot_update E (spc ?m5) True), ?m5\<lparr>change := Change_clear (change ?m5)\<rparr>)"
    using e mt a4(5) by (simp add: move_decide_def Let_def GrandCanonicalSalt_vtable_def)
  have r: "move_trial E ?V (utot, m)
             = Inr (True, eplus utot (pot_update E (spc ?m5) True), ?m5\<lparr>change := Change_clear (change ?m5)\<rparr>)"
    using t d by (simp add: move_trial_def)
  show ?thesis
    apply (rule exI [of _ ?m1])
    apply (rule exI [of _ "eplus utot (pot_update E (spc ?m5) True)"])
    apply (rule exI [of _ "?m5\<lparr>change := Change_clear (change ?m5)\<rparr>"])
    using t e r a4 w by simp
qed

lemma ex_salt_fields:
  "gc_map ex_salt = [(1, ex_ion 1 1), (2, ex_ion 2 (- 1))]"
  "slump ex_salt = rng_of_list [3 / 4, 1 / 4, 3 / 4, 1 / 2]"
  "spc ex_salt = space_empty" "cnt ex_salt = 0" "cnt_accepted ex_salt = 0"
  by (simp_all add: ex_salt_def)

lemma ex_salt_anion:
  "random_type_while (\<lambda>z. z \<ge> 0) [(1, ex_ion 1 1), (2, ex_ion 2 (- 1))]
     (rng_of_list [3 / 4, 1 / 4, 3 / 4, 1 / 2])
   = Some (Inr (2, (rng_of_list [3 / 4, 1 / 4, 3 / 4, 1 / 2])\<lparr>used := 1\<rparr>))"
  by (subst random_type_while.simps)
     (simp add: randomAtomType_def rng_element_def rng_uniform_def rng_index_def rng_of_list_def
       map_at_def ex_ion_def)

lemma ex_salt_cation:
  "random_type_while (\<lambda>z. z \<le> 0) [(1, ex_ion 1 1), (2, ex_ion 2 (- 1))]
     ((rng_of_list [3 / 4, 1 / 4, 3 / 4, 1 / 2])\<lparr>used := Suc 0\<rparr>)
   = Some (Inr (1, (rng_of_list [3 / 4, 1 / 4, 3 / 4, 1 / 2])\<lparr>used := 2\<rparr>))"
  by (subst random_type_while.simps)
     (simp add: randomAtomType_def rng_element_def rng_uniform_def rng_index_def rng_of_list_def
       map_at_def ex_ion_def)

theorem GrandCanonicalSalt_insufficient_inventory_witness:
  "\<exists>utot' m'. move_trial no_collaborators (GrandCanonicalSalt_vtable no_collaborators) (Fin 0, ex_salt)
                  = Inr (True, utot', m')
     \<and> cnt m' = 1 \<and> cnt_accepted m' = 1 \<and> alternateReturnEnergy m' = Fin 0
     \<and> p (spc m') = [] \<and> trial (spc m') = []"
proof -
  let ?r = "rng_of_list [3 / 4, 1 / 4, 3 / 4, 1 / 2]"
  have pair: "randomIonPair (gc_map ex_salt) (slump ex_salt) = Some (Inr (1, 2, ?r\<lparr>used := 2\<rparr>))"
    by (simp add: randomIonPair_def ex_salt_fields ex_salt_anion ex_salt_cation)
  have del: "rng_range 0 1 (?r\<lparr>used := 2\<rparr>) = (1, ?r\<lparr>used := 3\<rparr>)"
    by (simp add: rng_range_def rng_uniform_def rng_index_def rng_of_list_def)
  have short: "length (atomTrack (spc ex_salt) 1) < GCS_count ex_salt 2
               \<or> length (atomTrack (spc ex_salt) 2) < GCS_count ex_salt 1"
    by (simp add: ex_salt_fields space_empty_def GCS_count_def map_at_def ex_ion_def)
  have u: "draws (?r\<lparr>used := 3\<rparr>) (used (?r\<lparr>used := 3\<rparr>)) \<le> 1"
    by (simp add: rng_of_list_def)
  from GrandCanonicalSalt_insufficient_inventory [OF pair del short u, of no_collaborators "Fin 0"]
  show ?thesis
    by (auto simp add: ex_salt_fields space_empty_def)
qed

section \<open>Growth and acceptance of the rejection-free cluster\<close>










section \<open>Energy change of a polarised move\<close>

text \<open>
  C9. After the trial move of a wrapped move, the dipoles have been updated
  (\<^verbatim>\<open>updateDip\<close>) if and only if the move-list is empty or the count of trials since the
  call of \<^verbatim>\<open>move\<close> has reached the repeat count of the current move-list entry; the
  energy change is the full-system energy of the trial vector minus that of the
  committed vector when the dipoles have been updated, and the energy change of the
  wrapped move otherwise.
\<close>

theorem polarize_energy:
  fixes m :: "'a PolarizeMove_scheme"
  assumes t: "vtrialMove T m = Inr m1"
    and p: "PolarizeMove_trialMove E T m = Inr m2"
  shows "(updateDip m2 \<longleftrightarrow>
            (mollist m1 = [] \<or>
             Ntrials m1 + 1 = repeat (map_at MolListData_default (mollist m1) (currentMolId m1))))
       \<and> fst (PolarizeMove_energyChange E T m2)
           = (if updateDip m2
              then eminus (systemEnergy E (spc m2) (trial (spc m2))) (systemEnergy E (spc m2) (p (spc m2)))
              else fst (venergyChange T m2))"
proof -
  have "updateDip m2 \<longleftrightarrow>
            (mollist m1 = [] \<or>
             Ntrials m1 + 1 = repeat (map_at MolListData_default (mollist m1) (currentMolId m1)))"
    using t p
    by (auto simp add: PolarizeMove_trialMove_def Let_def split: if_splits sum.splits prod.splits)
  then show ?thesis
    by (simp add: PolarizeMove_energyChange_def)
qed

text \<open>
  On the first of two repeats the energy change is that of the wrapped move, here 1,
  and not the difference of the full-system energies, here 0.
\<close>

lemma ex_polar_trial:
  "PolarizeMove_trialMove no_collaborators (const_move (Fin 1)) (ex_polar 2)
     = Inr ((ex_polar 2)\<lparr>Ntrials := 1\<rparr>)"
  by (simp add: PolarizeMove_trialMove_def Let_def const_move_def ex_polar_def map_at_def
      map_touch_def)

theorem polarize_full_energy_counterexample:
  "PolarizeMove_trialMove no_collaborators (const_move (Fin 1)) (ex_polar 2)
     = Inr ((ex_polar 2)\<lparr>Ntrials := 1\<rparr>)
   \<and> fst (PolarizeMove_energyChange no_collaborators (const_move (Fin 1)) ((ex_polar 2)\<lparr>Ntrials := 1\<rparr>))
       = Fin 1
   \<and> eminus (systemEnergy no_collaborators (spc ((ex_polar 2)\<lparr>Ntrials := 1\<rparr>))
               (trial (spc ((ex_polar 2)\<lparr>Ntrials := 1\<rparr>))))
            (systemEnergy no_collaborators (spc ((ex_polar 2)\<lparr>Ntrials := 1\<rparr>))
               (p (spc ((ex_polar 2)\<lparr>Ntrials := 1\<rparr>)))) = Fin 0"
  by (simp add: ex_polar_trial)
     (simp add: PolarizeMove_energyChange_def const_move_def ex_polar_def no_collaborators_def
       eminus_def)

lemma ex_induce:
  "induceDipoles no_collaborators 40 (1 / 1000) 0 (trial ex_space) = Inr (1, trial ex_space)"
  by (subst induceDipoles.simps)
     (simp add: Let_def no_collaborators_def ex_space_def ex_particle_def induce_particle_def
       point_add_def point_sub_def point_scale_def point_norm_def maxCoeff_def)

lemma ex_polar_trial_last:
  "PolarizeMove_trialMove no_collaborators (const_move (Fin 1)) (ex_polar 1)
     = Inr ((ex_polar 1)\<lparr>Ntrials := 1, updateDip := True, numIter := (1, 1)\<rparr>)"
proof -
  have f: "mollist (ex_polar 1) \<noteq> []" "Ntrials (ex_polar 1) = 0" "currentMolId (ex_polar 1) = 0"
    "map_at MolListData_default (mollist (ex_polar 1)) 0 = MolListData_default\<lparr>perMol := True, repeat := 1\<rparr>"
    "map_touch MolListData_default 0 (mollist (ex_polar 1)) = mollist (ex_polar 1)"
    "max_iter (ex_polar 1) = 40" "pol_threshold (ex_polar 1) = 1 / 1000" "spc (ex_polar 1) = ex_space"
    "numIter (ex_polar 1) = (0, 0)"
    by (simp_all add: ex_polar_def map_at_def map_touch_def)
  show ?thesis
    by (simp add: PolarizeMove_trialMove_def Let_def const_move_def f ex_induce avg_add_def)
qed

theorem polarize_energy_witness:
  "fst (PolarizeMove_energyChange no_collaborators (const_move (Fin 1))
         ((ex_polar 1)\<lparr>Ntrials := 1, updateDip := True, numIter := (1, 1)\<rparr>)) = Fin 0"
proof -
  let ?m2 = "(ex_polar 1)\<lparr>Ntrials := 1, updateDip := True, numIter := (1, 1)\<rparr>"
  have t: "vtrialMove (const_move (Fin 1)) (ex_polar 1) = Inr (ex_polar 1)"
    by (simp add: const_move_def)
  have "updateDip ?m2" by simp
  with polarize_energy [OF t ex_polar_trial_last]
  show ?thesis
    by (simp add: no_collaborators_def eminus_def)
qed

section \<open>The generator of the selections\<close>















end
